theory Spec2Isabelle
  imports Complex_Main "HOL-Library.Word" "HOL-Library.Char_ord" "HOL-Library.List_Lexorder"
    "HOL-Library.Multiset" "HOL-Library.Sublist" "HOL-Library.AList"
begin

section \<open>Automated backup system: a shallow embedding of \<^verbatim>\<open>auto_backup.py\<close>\<close>

text \<open>
  The development follows the class \<^verbatim>\<open>BackupSystem\<close>. Pure computations (the
  checksum of a directory tree) are HOL functions. Methods that mutate the object or the
  file system take the state and return the new one. A Python exception that leaves a
  method is the left injection of a sum type, carrying \<^verbatim>\<open>str(e)\<close>. The
  external programs and library calls (\<^verbatim>\<open>gh\<close>, \<^verbatim>\<open>git\<close>,
  \<^verbatim>\<open>shutil\<close>, \<^verbatim>\<open>mkdir\<close>, \<^verbatim>\<open>unlink\<close>) are
  fields of an environment record that says, for each call, whether it raises and what it
  leaves behind.
\<close>

subsection \<open>SHA-256 (\<^verbatim>\<open>hashlib.sha256\<close>), after FIPS 180-4\<close>

unbundle bit_operations_syntax

type_synonym byte = "8 word"
type_synonym u32 = "32 word"

definition rotr :: "nat \<Rightarrow> u32 \<Rightarrow> u32" where
  "rotr n x = drop_bit n x OR push_bit (32 - n) x"

definition Ch :: "u32 \<Rightarrow> u32 \<Rightarrow> u32 \<Rightarrow> u32" where
  "Ch x y z = (x AND y) XOR (NOT x AND z)"

definition Maj :: "u32 \<Rightarrow> u32 \<Rightarrow> u32 \<Rightarrow> u32" where
  "Maj x y z = (x AND y) XOR (x AND z) XOR (y AND z)"

definition bsig0 :: "u32 \<Rightarrow> u32" where
  "bsig0 x = rotr 2 x XOR rotr 13 x XOR rotr 22 x"

definition bsig1 :: "u32 \<Rightarrow> u32" where
  "bsig1 x = rotr 6 x XOR rotr 11 x XOR rotr 25 x"

definition ssig0 :: "u32 \<Rightarrow> u32" where
  "ssig0 x = rotr 7 x XOR rotr 18 x XOR drop_bit 3 x"

definition ssig1 :: "u32 \<Rightarrow> u32" where
  "ssig1 x = rotr 17 x XOR rotr 19 x XOR drop_bit 10 x"

definition sha256_K :: "u32 list" where
  "sha256_K =
   [1116352408, 1899447441, 3049323471, 3921009573, 961987163, 1508970993, 2453635748, 2870763221,
    3624381080, 310598401, 607225278, 1426881987, 1925078388, 2162078206, 2614888103, 3248222580,
    3835390401, 4022224774, 264347078, 604807628, 770255983, 1249150122, 1555081692, 1996064986,
    2554220882, 2821834349, 2952996808, 3210313671, 3336571891, 3584528711, 113926993, 338241895,
    666307205, 773529912, 1294757372, 1396182291, 1695183700, 1986661051, 2177026350, 2456956037,
    2730485921, 2820302411, 3259730800, 3345764771, 3516065817, 3600352804, 4094571909, 275423344,
    430227734, 506948616, 659060556, 883997877, 958139571, 1322822218, 1537002063, 1747873779,
    1955562222, 2024104815, 2227730452, 2361852424, 2428436474, 2756734187, 3204031479, 3329325298]"

definition sha256_H0 :: "u32 list" where
  "sha256_H0 =
   [1779033703, 3144134277, 1013904242, 2773480762, 1359893119, 2600822924, 528734635, 1541459225]"

definition sha256_pad :: "byte list \<Rightarrow> byte list" where
  "sha256_pad m =
     m @ [0x80] @ replicate ((64 - (length m + 9) mod 64) mod 64) 0 @
     map (\<lambda>i. ucast (drop_bit (8 * (7 - i)) (of_nat (8 * length m) :: 64 word))) [0..<8]"

fun be_words :: "byte list \<Rightarrow> u32 list" where
  "be_words (a # b # c # d # bs) =
     (push_bit 24 (ucast a) OR push_bit 16 (ucast b) OR push_bit 8 (ucast c) OR ucast d) # be_words bs"
| "be_words _ = []"

fun schedule :: "nat \<Rightarrow> u32 list \<Rightarrow> u32 list" where
  "schedule 0 ws = ws"
| "schedule (Suc n) ws =
     schedule n ((ssig1 (ws ! 1) + ws ! 6 + ssig0 (ws ! 14) + ws ! 15) # ws)"

fun sha256_round :: "u32 list \<Rightarrow> u32 \<times> u32 \<Rightarrow> u32 list" where
  "sha256_round [a, b, c, d, e, f, g, h] (k, w) =
     (let t1 = h + bsig1 e + Ch e f g + k + w;
          t2 = bsig0 a + Maj a b c
      in [t1 + t2, a, b, c, d + t1, e, f, g])"
| "sha256_round s _ = s"

definition sha256_block :: "u32 list \<Rightarrow> u32 list \<Rightarrow> u32 list" where
  "sha256_block hs blk =
     map2 (+) hs (foldl sha256_round hs (zip sha256_K (rev (schedule 48 (rev blk)))))"

fun chunks16 :: "nat \<Rightarrow> u32 list \<Rightarrow> u32 list list" where
  "chunks16 0 ws = []"
| "chunks16 (Suc n) ws = take 16 ws # chunks16 n (drop 16 ws)"

definition sha256 :: "byte list \<Rightarrow> u32 list" where
  "sha256 m = (let ws = be_words (sha256_pad m)
               in foldl sha256_block sha256_H0 (chunks16 (length ws div 16) ws))"

definition hex_digit :: "nat \<Rightarrow> char" where
  "hex_digit n = ''0123456789abcdef'' ! n"

definition hex_word :: "u32 \<Rightarrow> string" where
  "hex_word w = map (\<lambda>i. hex_digit (unat (drop_bit (4 * (7 - i)) w AND 15))) [0..<8]"

definition sha256_hex :: "byte list \<Rightarrow> string" where
  "sha256_hex m = concat (map hex_word (sha256 m))"



subsection \<open>Checksum engine\<close>

type_synonym hasher = "byte list"

definition update :: "hasher \<Rightarrow> byte list \<Rightarrow> hasher" where
  "update h bs = h @ bs"

definition hexdigest :: "hasher \<Rightarrow> string" where
  "hexdigest h = sha256_hex h"

datatype node = File "byte list option" | Dir "(string \<times> node) list"

fun is_dir :: "node \<Rightarrow> bool" where
  "is_dir (Dir _) = True"
| "is_dir (File _) = False"

fun read_bytes :: "node \<Rightarrow> byte list option" where
  "read_bytes (File c) = c"
| "read_bytes (Dir _) = None"

definition hash_file :: "hasher \<Rightarrow> string \<times> node \<Rightarrow> hasher" where
  "hash_file h e = (case read_bytes (snd e) of Some bs \<Rightarrow> update h bs | None \<Rightarrow> h)"


lemma size_entry_less: "(a, b) \<in> set es \<Longrightarrow> size b < Suc (size_list (size_prod (\<lambda>x. 0) size) es)"
  by (induction es) auto

function walk_hash :: "hasher \<Rightarrow> node \<Rightarrow> hasher" where
  "walk_hash h (File c) = h"
| "walk_hash h (Dir es) =
     (let dirs = sort_key fst (filter (\<lambda>e. is_dir (snd e)) es);
          files = sort_key fst (filter (\<lambda>e. \<not> is_dir (snd e)) es);
          h1 = foldl hash_file h files
      in foldl (\<lambda>acc e. walk_hash acc (snd e)) h1 dirs)"
  by pat_completeness auto
termination
  by (relation "measure (\<lambda>(h, t). size t)") (auto simp: size_entry_less)

definition calculate_checksum :: "node \<Rightarrow> string" where
  "calculate_checksum directory = hexdigest (walk_hash [] directory)"

function readable_files_in_order :: "node \<Rightarrow> byte list list" where
  "readable_files_in_order (File c) = []"
| "readable_files_in_order (Dir es) =
     List.map_filter (\<lambda>e. read_bytes (snd e)) (sort_key fst (filter (\<lambda>e. \<not> is_dir (snd e)) es)) @
     concat (map (\<lambda>e. readable_files_in_order (snd e)) (sort_key fst (filter (\<lambda>e. is_dir (snd e)) es)))"
  by pat_completeness auto
termination
  by (relation "measure size") (auto simp: size_entry_less)

definition reference_checksum :: "node \<Rightarrow> string" where
  "reference_checksum t = sha256_hex (concat (readable_files_in_order t))"

function distinct_names :: "node \<Rightarrow> bool" where
  "distinct_names (File c) = True"
| "distinct_names (Dir es) = (distinct (map fst es) \<and> (\<forall>e \<in> set es. distinct_names (snd e)))"
  by pat_completeness auto
termination
  by (relation "measure size") (auto simp: size_entry_less)

inductive reorder :: "node \<Rightarrow> node \<Rightarrow> bool" where
  reorder_File: "reorder (File c) (File c)"
| reorder_Dir: "list_all2 (\<lambda>a b. fst a = fst b \<and> reorder (snd a) (snd b)) es es1 \<Longrightarrow>
     mset es1 = mset es' \<Longrightarrow> reorder (Dir es) (Dir es')"

function rename :: "(string \<Rightarrow> string) \<Rightarrow> node \<Rightarrow> node" where
  "rename f (File c) = File c"
| "rename f (Dir es) = Dir (map (\<lambda>e. (f (fst e), rename f (snd e))) es)"
  by pat_completeness auto
termination
  by (relation "measure (\<lambda>(f, t). size t)") (auto simp: size_entry_less)

function no_readable_files :: "node \<Rightarrow> bool" where
  "no_readable_files (File c) = (c = None)"
| "no_readable_files (Dir es) = list_all (\<lambda>e. no_readable_files (snd e)) es"
  by pat_completeness auto
termination
  by (relation "measure size") (auto simp: size_entry_less)

definition tree_a :: node where
  "tree_a = Dir [(''b.txt'', File (Some [0x62])),
                 (''a'', Dir [(''y'', File (Some [0x79])), (''x'', File None)]),
                 (''a.txt'', File (Some [0x61]))]"

definition tree_a_permuted :: node where
  "tree_a_permuted = Dir [(''a.txt'', File (Some [0x61])),
                          (''b.txt'', File (Some [0x62])),
                          (''a'', Dir [(''x'', File None), (''y'', File (Some [0x79]))])]"

definition tree_a_renamed :: node where
  "tree_a_renamed = Dir [(''n.txt'', File (Some [0x62])),
                 (''k'', Dir [(''q'', File (Some [0x79])), (''p'', File None)]),
                 (''m.txt'', File (Some [0x61]))]"

definition tree_unreadable :: node where
  "tree_unreadable = Dir [(''locked'', File None), (''sub'', Dir [(''also_locked'', File None)])]"


subsection \<open>Records, state and environment\<close>

record file_stat =
  st_size :: nat
  st_mtime :: real

record backup_info =
  name :: string
  info_timestamp :: string
  status :: string
  checksum :: "string option"
  size_bytes :: nat
  archive_path :: "string option"
  error :: "string option"

record summary_counts =
  total :: int
  success :: int
  failed :: int

record run_log =
  log_timestamp :: string
  repositories :: "backup_info list"
  log_status :: string
  errors :: "string list"
  summary :: "summary_counts option"

datatype report =
  Removed string | RemoveFailed string string | Uploaded | UploadFailed string

record system =
  backup_dir :: string
  timestamp :: string
  backup_log :: run_log
  workspaces :: "string \<rightharpoonup> (string \<times> node) list"
  store :: "(string \<times> file_stat) list"
  links :: "string list"
  sink :: "(string \<times> file_stat) list"
  invoked :: "string list list"
  console :: "report list"

record env =
  gh_repo_list :: "string + (string \<rightharpoonup> string) list"
  gh_repo_clone :: "string \<Rightarrow> (string \<times> node) list option \<Rightarrow> string + (string \<times> node) list"
  mkdir_fault :: "string \<Rightarrow> string option"
  make_archive :: "string \<Rightarrow> (string \<times> node) list option \<Rightarrow> string + file_stat option"
  rmtree_fault :: "string \<Rightarrow> string option"
  unlink_fault :: "string \<Rightarrow> string option"
  copy2_fault :: "string \<Rightarrow> string option"
  chdir_fault :: "string \<Rightarrow> string option"
  run_fault :: "string list \<Rightarrow> string option"
  utcnow :: real
  utcoffset :: real

definition BackupSystem_init :: "string \<Rightarrow> string \<Rightarrow> string \<Rightarrow> system" where
  "BackupSystem_init dir ts started =
     \<lparr>backup_dir = dir, timestamp = ts,
      backup_log = \<lparr>log_timestamp = started, repositories = [], log_status = ''in_progress'',
                    errors = [], summary = None\<rparr>,
      workspaces = Map.empty, store = [], links = [], sink = [], invoked = [], console = []\<rparr>"

definition quoted :: "string \<Rightarrow> string" where
  "quoted s = CHR 0x27 # s @ [CHR 0x27]"

definition basename :: "string \<Rightarrow> string" where
  "basename p = rev (takeWhile (\<lambda>c. c \<noteq> CHR ''/'') (rev p))"

definition add_error :: "system \<Rightarrow> string \<Rightarrow> system" where
  "add_error s msg = s\<lparr>backup_log := (backup_log s)\<lparr>errors := errors (backup_log s) @ [msg]\<rparr>\<rparr>"

definition record_call :: "system \<Rightarrow> string list \<Rightarrow> system" where
  "record_call s cmd = s\<lparr>invoked := invoked s @ [cmd]\<rparr>"

definition print :: "system \<Rightarrow> report \<Rightarrow> system" where
  "print s r = s\<lparr>console := console s @ [r]\<rparr>"

definition gh_repo_list_cmd :: "string list" where
  "gh_repo_list_cmd =
     [''gh'', ''repo'', ''list'', ''InfinityXOneSystems'', ''--limit'', ''100'', ''--json'', ''name'']"

fun repo_names :: "(string \<rightharpoonup> string) list \<Rightarrow> string + string list" where
  "repo_names [] = Inr []"
| "repo_names (repo # repos) =
     (case repo ''name'' of
        None \<Rightarrow> Inl (quoted ''name'')
      | Some n \<Rightarrow>
          (case repo_names repos of
             Inl msg \<Rightarrow> Inl msg
           | Inr ns \<Rightarrow> Inr (if n \<noteq> ''backup'' then n # ns else ns)))"

definition get_all_repositories :: "env \<Rightarrow> system \<Rightarrow> string list \<times> system" where
  "get_all_repositories e s =
     (let s1 = record_call s gh_repo_list_cmd
      in case gh_repo_list e of
           Inl msg \<Rightarrow> ([], add_error s1 (''Failed to list repositories: '' @ msg))
         | Inr repos \<Rightarrow>
             (case repo_names repos of
                Inl msg \<Rightarrow> ([], add_error s1 (''Failed to list repositories: '' @ msg))
              | Inr ns \<Rightarrow> (ns, s1)))"

definition clone_repository :: "env \<Rightarrow> system \<Rightarrow> string \<Rightarrow> string \<Rightarrow> bool \<times> system" where
  "clone_repository e s repo_name dest_path =
     (let s1 = record_call s [''gh'', ''repo'', ''clone'', ''InfinityXOneSystems/'' @ repo_name, dest_path]
      in case gh_repo_clone e repo_name (workspaces s dest_path) of
           Inr tree \<Rightarrow> (True, s1\<lparr>workspaces := (workspaces s1)(dest_path \<mapsto> tree)\<rparr>)
         | Inl msg \<Rightarrow> (False, add_error s1 (''Failed to clone '' @ repo_name @ '': '' @ msg)))"

definition create_archive :: "env \<Rightarrow> system \<Rightarrow> string \<Rightarrow> string \<Rightarrow> string + string \<times> system" where
  "create_archive e s source_dir archive_name =
     (let base = backup_dir s @ ''/'' @ archive_name @ ''_'' @ timestamp s
      in case make_archive e base (workspaces s source_dir) of
           Inl msg \<Rightarrow> Inl msg
         | Inr None \<Rightarrow> Inr (base @ ''.tar.gz'', s)
         | Inr (Some st) \<Rightarrow>
             Inr (base @ ''.tar.gz'',
                  s\<lparr>store := AList.update (base @ ''.tar.gz'') st (store s)\<rparr>))"

definition py_stat :: "system \<Rightarrow> string \<Rightarrow> string + file_stat" where
  "py_stat s p =
     (case map_of (store s) p of
        None \<Rightarrow> Inl (''[Errno 2] No such file or directory: '' @ quoted p)
      | Some st \<Rightarrow> Inr st)"

definition exists :: "system \<Rightarrow> string \<Rightarrow> bool" where
  "exists s p = (map_of (store s) p \<noteq> None)"

definition mkdir :: "env \<Rightarrow> system \<Rightarrow> string \<Rightarrow> string + system" where
  "mkdir e s p =
     (case mkdir_fault e p of
        Some msg \<Rightarrow> Inl msg
      | None \<Rightarrow>
          (case workspaces s p of
             None \<Rightarrow> Inr (s\<lparr>workspaces := (workspaces s)(p \<mapsto> [])\<rparr>)
           | Some es \<Rightarrow> Inr s))"

definition rmtree :: "env \<Rightarrow> system \<Rightarrow> string \<Rightarrow> string + system" where
  "rmtree e s p =
     (case rmtree_fault e p of
        Some msg \<Rightarrow> Inl msg
      | None \<Rightarrow> Inr (s\<lparr>workspaces := (workspaces s)(p := None)\<rparr>))"

definition checksum_of :: "system \<Rightarrow> string \<Rightarrow> string" where
  "checksum_of s p =
     calculate_checksum (Dir (case workspaces s p of None \<Rightarrow> [] | Some es \<Rightarrow> es))"

definition verify_archive :: "system \<Rightarrow> string \<Rightarrow> string + bool" where
  "verify_archive s p =
     (if exists s p
      then (case py_stat s p of Inl msg \<Rightarrow> Inl msg | Inr st \<Rightarrow> Inr (st_size st > 0))
      else Inr False)"

definition on_exception :: "backup_info \<Rightarrow> system \<Rightarrow> string \<Rightarrow> string \<Rightarrow> backup_info \<times> system" where
  "on_exception info s repo_name msg =
     (info\<lparr>error := Some msg\<rparr>,
      add_error s (''Backup failed for '' @ repo_name @ '': '' @ msg))"

definition backup_repository :: "env \<Rightarrow> system \<Rightarrow> string \<Rightarrow> string + backup_info \<times> system" where
  "backup_repository e s repo_name =
     (let bi0 = \<lparr>name = repo_name, info_timestamp = timestamp s, status = ''failed'',
                          checksum = None, size_bytes = 0, archive_path = None, error = None\<rparr>;
          temp_dir = backup_dir s @ ''/temp/'' @ repo_name
      in case mkdir e s temp_dir of
           Inl msg \<Rightarrow> Inl msg
         | Inr s0 \<Rightarrow>
             (case clone_repository e s0 repo_name temp_dir of
                (False, s1) \<Rightarrow> Inr (bi0, s1)
              | (True, s1) \<Rightarrow>
                  (let bi1 = bi0\<lparr>checksum := Some (checksum_of s1 temp_dir)\<rparr>
                   in case create_archive e s1 temp_dir repo_name of
                        Inl msg \<Rightarrow> Inr (on_exception bi1 s1 repo_name msg)
                      | Inr (archive, s2) \<Rightarrow>
                          (let bi2 = bi1\<lparr>archive_path := Some archive\<rparr>
                           in case py_stat s2 archive of
                                Inl msg \<Rightarrow> Inr (on_exception bi2 s2 repo_name msg)
                              | Inr st \<Rightarrow>
                                  (let bi3 = bi2\<lparr>size_bytes := st_size st\<rparr>
                                   in case verify_archive s2 archive of
                                        Inl msg \<Rightarrow> Inr (on_exception bi3 s2 repo_name msg)
                                      | Inr ok \<Rightarrow>
                                          (let bi4 = (if ok then bi3\<lparr>status := ''success''\<rparr> else bi3)
                                           in case rmtree e s2 temp_dir of
                                                Inl msg \<Rightarrow> Inr (on_exception bi4 s2 repo_name msg)
                                              | Inr s3 \<Rightarrow> Inr (bi4, s3)))))))"

definition append_record :: "system \<Rightarrow> backup_info \<Rightarrow> system" where
  "append_record s info =
     s\<lparr>backup_log := (backup_log s)\<lparr>repositories := repositories (backup_log s) @ [info]\<rparr>\<rparr>"

fun backup_loop :: "env \<Rightarrow> system \<Rightarrow> string list \<Rightarrow> string + system" where
  "backup_loop e s [] = Inr s"
| "backup_loop e s (repo_name # rest) =
     (case backup_repository e s repo_name of
        Inl msg \<Rightarrow> Inl msg
      | Inr (info, s1) \<Rightarrow> backup_loop e (append_record s1 info) rest)"

definition backup_all_repositories :: "env \<Rightarrow> system \<Rightarrow> string + run_log \<times> system" where
  "backup_all_repositories e s =
     (case get_all_repositories e s of
        (repos, s1) \<Rightarrow>
          (case backup_loop e s1 repos of
             Inl msg \<Rightarrow> Inl msg
           | Inr s2 \<Rightarrow>
               (let success_count =
                      int (length (filter (\<lambda>r. status r = ''success'') (repositories (backup_log s2))));
                    log = (backup_log s2)
                      \<lparr>log_status := (if success_count = int (length repos) then ''completed'' else ''partial''),
                       summary := Some \<lparr>total = int (length repos), success = success_count,
                                        failed = int (length repos) - success_count\<rparr>\<rparr>
                in Inr (log, s2\<lparr>backup_log := log\<rparr>))))"

definition unlink :: "env \<Rightarrow> system \<Rightarrow> string \<Rightarrow> string + system" where
  "unlink e s p =
     (case unlink_fault e p of
        Some msg \<Rightarrow> Inl msg
      | None \<Rightarrow> Inr (s\<lparr>store := AList.delete p (store s)\<rparr>))"

text \<open>
  The backup directory holds the files of \<open>store\<close>, each with its \<^verbatim>\<open>stat\<close> result, and
  the names of \<open>links\<close>: symbolic links whose target is missing. A scan of the directory
  yields both, the files in the order of \<open>store\<close>; \<^verbatim>\<open>stat\<close>, \<^verbatim>\<open>exists\<close> and
  \<^verbatim>\<open>is_file\<close> follow a link, so \<open>py_stat\<close> raises on the name of a link.
\<close>

definition scandir :: "system \<Rightarrow> string list" where
  "scandir s = map fst (store s) @ links s"

definition glob :: "system \<Rightarrow> string \<Rightarrow> string list" where
  "glob s ext = filter (\<lambda>p. suffix ext (basename p)) (scandir s)"

fun cleanup_loop :: "env \<Rightarrow> real \<Rightarrow> system \<Rightarrow> string list \<Rightarrow> string + system" where
  "cleanup_loop e cutoff_time s [] = Inr s"
| "cleanup_loop e cutoff_time s (archive # rest) =
     (case py_stat s archive of
        Inl msg \<Rightarrow> Inl msg
      | Inr st \<Rightarrow>
          (if st_mtime st < cutoff_time
           then (case unlink e s archive of
                   Inr s1 \<Rightarrow> cleanup_loop e cutoff_time (print s1 (Removed (basename archive))) rest
                 | Inl msg \<Rightarrow>
                     cleanup_loop e cutoff_time (print s (RemoveFailed (basename archive) msg)) rest)
           else cleanup_loop e cutoff_time s rest))"

text \<open>
  The clock. \<open>utcnow e\<close> is the reading of \<^verbatim>\<open>datetime.utcnow()\<close>, the UTC wall-clock time in
  seconds since 1970-01-01T00:00:00; on this scale a file written at that moment has
  \<open>st_mtime = utcnow e\<close>. The reading carries no time zone, and \<^verbatim>\<open>timestamp()\<close> takes
  such a value for local time: with local time \<open>utcoffset e\<close> seconds ahead of UTC it
  returns \<open>utcnow e - utcoffset e\<close>.

  Times are floats in the source and real numbers here. Subtracting an \<^verbatim>\<open>int\<close> from a
  float first converts the \<^verbatim>\<open>int\<close>, which raises \<^verbatim>\<open>OverflowError\<close> when it rounds to
  \<open>2 ^ 1024\<close> or beyond, that is from \<open>2 ^ 1024 - 2 ^ 970\<close> on; below that bound the
  model keeps the exact value where the source rounds to 53 bits.
\<close>

definition utcnow_timestamp :: "env \<Rightarrow> real" where
  "utcnow_timestamp e = utcnow e - utcoffset e"

definition float_of_int :: "int \<Rightarrow> string + real" where
  "float_of_int n =
     (if 2 ^ 1024 - 2 ^ 970 \<le> \<bar>n\<bar>
      then Inl ''int too large to convert to float''
      else Inr (real_of_int n))"

definition cleanup_old_backups :: "env \<Rightarrow> system \<Rightarrow> int \<Rightarrow> string + system" where
  "cleanup_old_backups e s retention_days =
     (case float_of_int (retention_days * 86400) of
        Inl msg \<Rightarrow> Inl msg
      | Inr x \<Rightarrow>
          (let cutoff_time = utcnow_timestamp e - x
           in cleanup_loop e cutoff_time s (glob s ''.tar.gz'')))"

fun copy_loop :: "env \<Rightarrow> system \<Rightarrow> string \<Rightarrow> (string \<times> file_stat) list \<Rightarrow> string + system" where
  "copy_loop e s backups_dir [] = Inr s"
| "copy_loop e s backups_dir (item # rest) =
     (case copy2_fault e (fst item) of
        Some msg \<Rightarrow> Inl msg
      | None \<Rightarrow>
          copy_loop e
            (s\<lparr>sink := AList.update (backups_dir @ ''/'' @ basename (fst item)) (snd item) (sink s)\<rparr>)
            backups_dir rest)"

fun run_checked :: "env \<Rightarrow> system \<Rightarrow> string list list \<Rightarrow> string option \<times> system" where
  "run_checked e s [] = (None, s)"
| "run_checked e s (cmd # rest) =
     (case run_fault e cmd of
        Some msg \<Rightarrow> (Some msg, record_call s cmd)
      | None \<Rightarrow> run_checked e (record_call s cmd) rest)"

definition upload_to_backup_repo :: "env \<Rightarrow> system \<Rightarrow> string + system" where
  "upload_to_backup_repo e s =
     (let backup_repo = ''/home/ubuntu/repo_evaluation/backup'';
          backups_dir = backup_repo @ ''/backups/'' @ timestamp s
      in case mkdir_fault e backups_dir of
           Some msg \<Rightarrow> Inl msg
         | None \<Rightarrow>
             (case copy_loop e s backups_dir (store s) of
                Inl msg \<Rightarrow> Inl msg
              | Inr s1 \<Rightarrow>
                  (case chdir_fault e backup_repo of
                     Some msg \<Rightarrow> Inr (print s1 (UploadFailed msg))
                   | None \<Rightarrow>
                       (case run_checked e s1
                               [[''git'', ''add'', ''.''],
                                [''git'', ''commit'', ''-m'', ''Automated backup '' @ timestamp s],
                                [''git'', ''push'']] of
                          (Some msg, s2) \<Rightarrow> Inr (print s2 (UploadFailed msg))
                        | (None, s2) \<Rightarrow> Inr (print s2 Uploaded)))))"


subsection \<open>Concrete environments and systems\<close>

definition env_ok :: env where
  "env_ok = \<lparr>gh_repo_list = Inr [[''name'' \<mapsto> ''alpha''], [''name'' \<mapsto> ''backup''], [''name'' \<mapsto> ''beta'']],
           gh_repo_clone = (\<lambda>n w. Inr [(''README'', File (Some [0x68, 0x69]))]),
           mkdir_fault = (\<lambda>p. None),
           make_archive = (\<lambda>p w. Inr (Some \<lparr>st_size = 120, st_mtime = 1000\<rparr>)),
           rmtree_fault = (\<lambda>p. None),
           unlink_fault = (\<lambda>p. None),
           copy2_fault = (\<lambda>p. None),
           chdir_fault = (\<lambda>p. None),
           run_fault = (\<lambda>c. None),
           utcnow = 1704067200,
           utcoffset = 0\<rparr>"

definition env_beta_clone_fails :: env where
  "env_beta_clone_fails = env_ok\<lparr>gh_repo_clone :=
     (\<lambda>n w. if n = ''beta'' then Inl ''exit status 1'' else gh_repo_clone env_ok n w)\<rparr>"

definition env_empty_archive :: env where
  "env_empty_archive = env_ok\<lparr>make_archive := (\<lambda>p w. Inr (Some \<lparr>st_size = 0, st_mtime = 1000\<rparr>))\<rparr>"

definition sys0 :: system where
  "sys0 = BackupSystem_init ''/b'' ''20240101_000000'' ''2024-01-01T00:00:00''"

definition env_list_fails :: env where
  "env_list_fails = env_ok\<lparr>gh_repo_list := Inl ''gh: exit status 4''\<rparr>"

definition env_no_name :: env where
  "env_no_name = env_ok\<lparr>gh_repo_list := Inr [[''name'' \<mapsto> ''alpha''], [''id'' \<mapsto> ''7'']]\<rparr>"

definition env_no_repos :: env where
  "env_no_repos = env_ok\<lparr>gh_repo_list := Inr []\<rparr>"

definition prunes :: "env \<Rightarrow> real \<Rightarrow> string list \<Rightarrow> string \<times> file_stat \<Rightarrow> bool" where
  "prunes e cutoff archs x = (fst x \<in> set archs \<and> st_mtime (snd x) < cutoff \<and> unlink_fault e (fst x) = None)"

definition sys_retention :: system where
  "sys_retention = (BackupSystem_init ''/b'' ''20240210_000000'' ''2024-02-10T00:00:00'')
     \<lparr>store := [(''/b/old_20240101_000000.tar.gz'', \<lparr>st_size = 10, st_mtime = 1704067200\<rparr>),
                (''/b/locked_20240101_000000.tar.gz'', \<lparr>st_size = 10, st_mtime = 1704067200\<rparr>),
                (''/b/edge_20240111_000000.tar.gz'', \<lparr>st_size = 10, st_mtime = 1704931200\<rparr>),
                (''/b/recent_20240111_040000.tar.gz'', \<lparr>st_size = 10, st_mtime = 1704945600\<rparr>),
                (''/b/new_20240131_000000.tar.gz'', \<lparr>st_size = 10, st_mtime = 1706659200\<rparr>),
                (''/b/backup_log_20240101_000000.json'', \<lparr>st_size = 10, st_mtime = 1704067200\<rparr>)]\<rparr>"

definition sys_retention_link :: system where
  "sys_retention_link = sys_retention\<lparr>links := [''/b/latest.tar.gz'']\<rparr>"

definition env_unlink_fails :: env where
  "env_unlink_fails = env_ok\<lparr>unlink_fault :=
     (\<lambda>p. if p = ''/b/locked_20240101_000000.tar.gz'' then Some ''[Errno 13] Permission denied'' else None),
     utcnow := 1707523200\<rparr>"

definition env_new_york :: env where
  "env_new_york = env_unlink_fails\<lparr>utcoffset := - 18000\<rparr>"

subsection \<open>Agreement of two runs at the paths of one repository\<close>

definition agree_at :: "string \<Rightarrow> string \<Rightarrow> system \<Rightarrow> system \<Rightarrow> bool" where
  "agree_at p q s1 s2 =
     (workspaces s2 p = workspaces s1 p \<and> map_of (store s2) q = map_of (store s1) q \<and>
      backup_dir s2 = backup_dir s1 \<and> timestamp s2 = timestamp s1)"

definition replace_repo :: "string \<Rightarrow> system \<Rightarrow> env \<Rightarrow> env \<Rightarrow> env" where
  "replace_repo R s e e' =
     e\<lparr>gh_repo_clone := (\<lambda>n. if n = R then gh_repo_clone e' n else gh_repo_clone e n),
       mkdir_fault := (\<lambda>p. if p = backup_dir s @ ''/temp/'' @ R then mkdir_fault e' p else mkdir_fault e p),
       make_archive := (\<lambda>p. if p = backup_dir s @ ''/'' @ R @ ''_'' @ timestamp s
                              then make_archive e' p else make_archive e p),
       rmtree_fault := (\<lambda>p. if p = backup_dir s @ ''/temp/'' @ R then rmtree_fault e' p else rmtree_fault e p)\<rparr>"

definition agree_off :: "string \<Rightarrow> system \<Rightarrow> system \<Rightarrow> bool" where
  "agree_off R s1 s2 =
     ((\<forall>n. n \<noteq> R \<longrightarrow>
         agree_at (backup_dir s1 @ ''/temp/'' @ n)
           (backup_dir s1 @ ''/'' @ n @ ''_'' @ timestamp s1 @ ''.tar.gz'') s1 s2) \<and>
      backup_dir s2 = backup_dir s1 \<and> timestamp s2 = timestamp s1 \<and>
      filter (\<lambda>i. name i \<noteq> R) (repositories (backup_log s2)) =
      filter (\<lambda>i. name i \<noteq> R) (repositories (backup_log s1)))"

definition record_invariant :: "system \<Rightarrow> backup_info \<Rightarrow> bool" where
  "record_invariant s info =
     (status info = ''success'' \<longrightarrow>
        checksum info \<noteq> None \<and> 0 < size_bytes info \<and>
        (case archive_path info of None \<Rightarrow> False | Some p \<Rightarrow> exists s p))"

definition env_archive_raises :: env where
  "env_archive_raises = env_ok\<lparr>make_archive := (\<lambda>p w. Inl ''[Errno 28] No space left on device'')\<rparr>"

definition env_archive_missing :: env where
  "env_archive_missing = env_ok\<lparr>make_archive := (\<lambda>p w. Inr None)\<rparr>"

definition env_copy_fails :: env where
  "env_copy_fails = env_ok\<lparr>copy2_fault := (\<lambda>p. Some ''[Errno 28] No space left on device'')\<rparr>"

definition env_push_fails :: env where
  "env_push_fails = env_ok\<lparr>run_fault :=
     (\<lambda>c. if c = [''git'', ''push''] then Some ''git push: exit status 1'' else None)\<rparr>"

definition sys_published :: system where
  "sys_published = (BackupSystem_init ''/b'' ''20240101_000000'' ''2024-01-01T00:00:00'')
     \<lparr>store := [(''/b/alpha_20240101_000000.tar.gz'', \<lparr>st_size = 120, st_mtime = 1000\<rparr>),
                (''/b/backup_log_20240101_000000.json'', \<lparr>st_size = 300, st_mtime = 1001\<rparr>)]\<rparr>"

definition sys0_alpha_dir :: system where
  "sys0_alpha_dir = sys0\<lparr>workspaces := (workspaces sys0)(''/b/temp/alpha'' \<mapsto> [])\<rparr>"

definition sys0_alpha_cloned :: system where
  "sys0_alpha_cloned = sys0
     \<lparr>workspaces := (workspaces sys0)(''/b/temp/alpha'' \<mapsto> [(''README'', File (Some [0x68, 0x69]))]),
      invoked := [[''gh'', ''repo'', ''clone'', ''InfinityXOneSystems/alpha'', ''/b/temp/alpha'']]\<rparr>"

definition sys0_alpha_archived :: system where
  "sys0_alpha_archived = sys0_alpha_cloned
     \<lparr>store := [(''/b/alpha_20240101_000000.tar.gz'', \<lparr>st_size = 0, st_mtime = 1000\<rparr>)]\<rparr>"

definition sys0_beta_dir :: system where
  "sys0_beta_dir = sys0\<lparr>workspaces := (workspaces sys0)(''/b/temp/beta'' \<mapsto> [])\<rparr>"

definition second_call :: "env \<Rightarrow> system \<Rightarrow> string + run_log \<times> system" where
  "second_call e s =
     (case backup_all_repositories e s of
        Inl msg \<Rightarrow> Inl msg
      | Inr (lg, s1) \<Rightarrow> backup_all_repositories e s1)"

section \<open>Properties of the checksum engine\<close>

lemma foldl_hash_file: "foldl hash_file h fs = h @ concat (List.map_filter (\<lambda>e. read_bytes (snd e)) fs)"
  by (induction fs arbitrary: h) (auto simp: hash_file_def update_def split: option.splits)

lemma foldl_walk:
  "(\<And>e h. e \<in> set ds \<Longrightarrow> walk_hash h (snd e) = h @ concat (g (snd e))) \<Longrightarrow>
   foldl (\<lambda>acc e. walk_hash acc (snd e)) h ds = h @ concat (concat (map (\<lambda>e. g (snd e)) ds))"
  by (induction ds arbitrary: h) auto

lemma walk_hash_eq: "walk_hash h t = h @ concat (readable_files_in_order t)"
proof (induction t arbitrary: h)
  case (File c)
  show ?case by simp
next
  case (Dir es)
  have sub: "\<And>e h. e \<in> set (sort_key fst (filter (\<lambda>e. is_dir (snd e)) es)) \<Longrightarrow>
      walk_hash h (snd e) = h @ concat (readable_files_in_order (snd e))"
  proof -
    fix e :: "string \<times> node" and h
    assume "e \<in> set (sort_key fst (filter (\<lambda>e. is_dir (snd e)) es))"
    then have "e \<in> set es" by simp
    moreover have "snd e \<in> Basic_BNFs.snds e" by (cases e) simp
    ultimately show "walk_hash h (snd e) = h @ concat (readable_files_in_order (snd e))"
      by (rule Dir.IH)
  qed
  have "foldl (\<lambda>acc e. walk_hash acc (snd e)) h' (sort_key fst (filter (\<lambda>e. is_dir (snd e)) es)) =
      h' @ concat (concat (map (\<lambda>e. readable_files_in_order (snd e))
        (sort_key fst (filter (\<lambda>e. is_dir (snd e)) es))))" for h'
    by (rule foldl_walk) (rule sub)
  then show ?case
    by (simp add: Let_def foldl_hash_file)
qed

lemma checksum_is_reference: "calculate_checksum t = reference_checksum t"
  by (simp add: calculate_checksum_def reference_checksum_def hexdigest_def walk_hash_eq)


lemma reorder_is_dir: "reorder a b \<Longrightarrow> is_dir a = is_dir b"
  by (cases rule: reorder.cases) auto

lemma reorder_read_bytes: "reorder a b \<Longrightarrow> read_bytes a = read_bytes b"
  by (cases rule: reorder.cases) auto

lemma list_all2_filter_same:
  "list_all2 R xs ys \<Longrightarrow> (\<And>x y. R x y \<Longrightarrow> P x = Q y) \<Longrightarrow>
   list_all2 R (filter P xs) (filter Q ys)"
  by (induction rule: list_all2_induct) auto

lemma list_all2_insort_key:
  "list_all2 R xs ys \<Longrightarrow> R x y \<Longrightarrow> (\<And>a b. R a b \<Longrightarrow> f a = g b) \<Longrightarrow>
   list_all2 R (insort_key f x xs) (insort_key g y ys)"
proof (induction rule: list_all2_induct)
  case Nil
  then show ?case by simp
next
  case (Cons a as b bs)
  have "f a = g b" "f x = g y" using Cons by auto
  with Cons show ?case by auto
qed

lemma list_all2_sort_key:
  "list_all2 R xs ys \<Longrightarrow> (\<And>a b. R a b \<Longrightarrow> f a = g b) \<Longrightarrow>
   list_all2 R (sort_key f xs) (sort_key g ys)"
  by (induction rule: list_all2_induct) (auto intro: list_all2_insort_key)

lemma list_all2_map_filter_eq:
  "list_all2 R xs ys \<Longrightarrow> (\<And>x y. R x y \<Longrightarrow> f x = g y) \<Longrightarrow>
   List.map_filter f xs = List.map_filter g ys"
proof (induction rule: list_all2_induct)
  case Nil
  then show ?case by simp
next
  case (Cons a as b bs)
  have "f a = g b" using Cons by auto
  with Cons show ?case by (simp split: option.splits)
qed

lemma list_all2_map_eq:
  "list_all2 R xs ys \<Longrightarrow> (\<And>x y. R x y \<Longrightarrow> f x = g y) \<Longrightarrow> map f xs = map g ys"
  by (induction rule: list_all2_induct) auto

lemma sort_key_mset_distinct:
  assumes "mset xs = mset ys" and "distinct (map f xs)"
  shows "sort_key f xs = sort_key f ys"
  using assms(1,2) distinct_map sort_key_eq_sort_key by blast

lemma reorder_files_in_order:
  "reorder t t' \<Longrightarrow> distinct_names t \<Longrightarrow> readable_files_in_order t' = readable_files_in_order t"
proof (induction rule: reorder.induct)
  case (reorder_File c)
  show ?case by simp
next
  case (reorder_Dir es es1 es')
  let ?R = "\<lambda>a b. fst a = fst b \<and> is_dir (snd a) = is_dir (snd b) \<and>
      read_bytes (snd a) = read_bytes (snd b) \<and>
      readable_files_in_order (snd a) = readable_files_in_order (snd b)"
  have dn: "distinct (map fst es)" and sub: "\<And>e. e \<in> set es \<Longrightarrow> distinct_names (snd e)"
    using reorder_Dir.prems by auto
  have rel: "list_all2 ?R es es1"
    using reorder_Dir.IH
    by (rule list.rel_mono_strong) (auto simp: sub reorder_is_dir reorder_read_bytes)
  have names: "map fst es = map fst es1"
    using rel by (rule list_all2_map_eq) simp
  have d1: "distinct (map fst (filter P es1))" for P
    using dn names by (simp add: distinct_map_filter)
  have perm: "sort_key fst (filter P es') = sort_key fst (filter P es1)" for P
    by (rule sort_key_mset_distinct [symmetric]) (simp_all add: reorder_Dir.hyps d1)
  have relf: "list_all2 ?R (sort_key fst (filter (\<lambda>e. \<not> is_dir (snd e)) es))
      (sort_key fst (filter (\<lambda>e. \<not> is_dir (snd e)) es1))"
    by (rule list_all2_sort_key, rule list_all2_filter_same, rule rel) auto
  have reld: "list_all2 ?R (sort_key fst (filter (\<lambda>e. is_dir (snd e)) es))
      (sort_key fst (filter (\<lambda>e. is_dir (snd e)) es1))"
    by (rule list_all2_sort_key, rule list_all2_filter_same, rule rel) auto
  have files: "List.map_filter (\<lambda>e. read_bytes (snd e)) (sort_key fst (filter (\<lambda>e. \<not> is_dir (snd e)) es)) =
      List.map_filter (\<lambda>e. read_bytes (snd e)) (sort_key fst (filter (\<lambda>e. \<not> is_dir (snd e)) es1))"
    using relf by (rule list_all2_map_filter_eq) simp
  have dirs: "map (\<lambda>e. readable_files_in_order (snd e)) (sort_key fst (filter (\<lambda>e. is_dir (snd e)) es)) =
      map (\<lambda>e. readable_files_in_order (snd e)) (sort_key fst (filter (\<lambda>e. is_dir (snd e)) es1))"
    using reld by (rule list_all2_map_eq) simp
  show ?case
    by (simp add: perm files dirs)
qed

lemma insort_key_strict_mono:
  "strict_mono f \<Longrightarrow> insort_key (\<lambda>x. f (k x)) a xs = insort_key k a xs"
  by (induction xs) (auto simp: strict_mono_less_eq)

lemma sort_key_strict_mono:
  "strict_mono f \<Longrightarrow> sort_key (\<lambda>x. f (k x)) xs = sort_key k xs"
  by (induction xs) (auto simp: insort_key_strict_mono)

lemma is_dir_rename: "is_dir (rename f t) = is_dir t"
  by (cases t) auto

lemma read_bytes_rename: "read_bytes (rename f t) = read_bytes t"
  by (cases t) auto

lemma rename_files_in_order:
  "strict_mono f \<Longrightarrow> readable_files_in_order (rename f t) = readable_files_in_order t"
proof (induction t)
  case (File c)
  show ?case by simp
next
  case (Dir es)
  let ?es' = "map (\<lambda>e. (f (fst e), rename f (snd e))) es"
  let ?R = "\<lambda>a b. f (fst a) = fst b \<and> is_dir (snd a) = is_dir (snd b) \<and>
      read_bytes (snd a) = read_bytes (snd b) \<and>
      readable_files_in_order (snd a) = readable_files_in_order (snd b)"
  have ih: "readable_files_in_order (rename f (snd e)) = readable_files_in_order (snd e)"
    if "e \<in> set es" for e
  proof -
    have "snd e \<in> Basic_BNFs.snds e" by (cases e) simp
    with that show ?thesis using Dir.prems by (rule Dir.IH)
  qed
  have rel: "list_all2 ?R es ?es'"
    by (simp add: list_all2_map2 list.rel_refl_strong is_dir_rename read_bytes_rename ih)
  have relf: "list_all2 ?R (sort_key (\<lambda>e. f (fst e)) (filter (\<lambda>e. \<not> is_dir (snd e)) es))
      (sort_key fst (filter (\<lambda>e. \<not> is_dir (snd e)) ?es'))"
    by (rule list_all2_sort_key, rule list_all2_filter_same, rule rel) auto
  have reld: "list_all2 ?R (sort_key (\<lambda>e. f (fst e)) (filter (\<lambda>e. is_dir (snd e)) es))
      (sort_key fst (filter (\<lambda>e. is_dir (snd e)) ?es'))"
    by (rule list_all2_sort_key, rule list_all2_filter_same, rule rel) auto
  have files: "List.map_filter (\<lambda>e. read_bytes (snd e)) (sort_key fst (filter (\<lambda>e. \<not> is_dir (snd e)) es)) =
      List.map_filter (\<lambda>e. read_bytes (snd e)) (sort_key fst (filter (\<lambda>e. \<not> is_dir (snd e)) ?es'))"
    using relf [unfolded sort_key_strict_mono [OF Dir.prems]]
    by (rule list_all2_map_filter_eq) simp
  have dirs: "map (\<lambda>e. readable_files_in_order (snd e)) (sort_key fst (filter (\<lambda>e. is_dir (snd e)) es)) =
      map (\<lambda>e. readable_files_in_order (snd e)) (sort_key fst (filter (\<lambda>e. is_dir (snd e)) ?es'))"
    using reld [unfolded sort_key_strict_mono [OF Dir.prems]]
    by (rule list_all2_map_eq) simp
  show ?case
    unfolding rename.simps readable_files_in_order.simps files dirs ..
qed

lemma strict_mono_Cons: "strict_mono ((#) (c::char))"
  by (simp add: strict_mono_def)

lemma sha256_hex_empty:
  "sha256_hex [] = ''e3b0c44298fc1c149afbf4c8996fb92427ae41e4649b934ca495991b7852b855''"
  by code_simp

lemma map_filter_all_None: "(\<And>x. x \<in> set xs \<Longrightarrow> f x = None) \<Longrightarrow> List.map_filter f xs = []"
  by (induction xs) auto

lemma no_readable_files_in_order: "no_readable_files t \<Longrightarrow> readable_files_in_order t = []"
proof (induction t)
  case (File c)
  show ?case by simp
next
  case (Dir es)
  have sub: "no_readable_files (snd e)" if "e \<in> set es" for e
    using Dir.prems that by (simp add: list_all_iff)
  have files: "read_bytes (snd e) = None"
    if "e \<in> set (sort_key fst (filter (\<lambda>e. \<not> is_dir (snd e)) es))" for e
  proof -
    from that have "e \<in> set es" and "\<not> is_dir (snd e)" by simp_all
    with sub [of e] show ?thesis by (cases "snd e") simp_all
  qed
  have dirs: "readable_files_in_order (snd e) = []"
    if "e \<in> set (sort_key fst (filter (\<lambda>e. is_dir (snd e)) es))" for e
  proof -
    from that have mem: "e \<in> set es" by simp
    have "snd e \<in> Basic_BNFs.snds e" by (cases e) simp
    with mem show ?thesis using sub [OF mem] by (rule Dir.IH)
  qed
  have "List.map_filter (\<lambda>e. read_bytes (snd e))
      (sort_key fst (filter (\<lambda>e. \<not> is_dir (snd e)) es)) = []"
    by (rule map_filter_all_None) (rule files)
  then show ?case
    by (simp add: dirs)
qed

text \<open>
  \<^bold>\<open>C6\<close> (checksum determinism). Let \<open>t'\<close> list the entries of \<open>t\<close> in another
  native order at any level of the tree (\<open>reorder t t'\<close>), the names inside each directory
  of \<open>t\<close> being distinct, as in a file system. Then \<open>calculate_checksum\<close> returns the
  same digest for both: the sorting of \<open>dirs\<close> and \<open>files\<close> removes the iteration order.
\<close>

theorem calculate_checksum_order_invariant:
  "distinct_names t \<Longrightarrow> reorder t t' \<Longrightarrow> calculate_checksum t' = calculate_checksum t"
  by (simp add: calculate_checksum_def walk_hash_eq reorder_files_in_order)

theorem calculate_checksum_order_invariant_witness:
  "distinct_names tree_a \<and> reorder tree_a tree_a_permuted \<and>
   calculate_checksum tree_a_permuted = calculate_checksum tree_a"
proof -
  have d: "distinct_names tree_a"
    by (simp add: tree_a_def)
  have sub: "reorder (Dir [(''y'', File (Some [0x79])), (''x'', File None)])
      (Dir [(''x'', File None), (''y'', File (Some [0x79]))])"
    by (rule reorder_Dir [where ?es1.0 = "[(''y'', File (Some [0x79])), (''x'', File None)]"])
      (simp_all add: reorder_File)
  have r: "reorder tree_a tree_a_permuted"
    unfolding tree_a_def tree_a_permuted_def
    by (rule reorder_Dir [where ?es1.0 = "[(''b.txt'', File (Some [0x62])),
          (''a'', Dir [(''x'', File None), (''y'', File (Some [0x79]))]),
          (''a.txt'', File (Some [0x61]))]"])
      (simp_all add: reorder_File sub)
  from d r calculate_checksum_order_invariant [OF d r] show ?thesis by simp
qed

text \<open>
  \<^bold>\<open>C10\<close> (what the checksum is). \<open>calculate_checksum\<close> is the lowercase hex
  SHA-256 digest of the concatenated contents of the readable regular files, in sorted
  traversal order (\<open>reference_checksum\<close>). Names are not hashed: two trees whose readable
  contents come in the same order have the same digest, and so does a tree renamed by a
  strictly monotone renaming, which keeps the visiting order. A tree with no readable file
  has the digest of the empty byte string.
\<close>

theorem calculate_checksum_reference:
  "calculate_checksum t = reference_checksum t \<and>
   (readable_files_in_order t' = readable_files_in_order t \<longrightarrow>
      calculate_checksum t' = calculate_checksum t) \<and>
   (strict_mono f \<longrightarrow> calculate_checksum (rename f t) = calculate_checksum t) \<and>
   (no_readable_files t \<longrightarrow>
      calculate_checksum t = ''e3b0c44298fc1c149afbf4c8996fb92427ae41e4649b934ca495991b7852b855'')"
  by (simp add: checksum_is_reference reference_checksum_def rename_files_in_order
      no_readable_files_in_order sha256_hex_empty)

lemma tree_a_order: "readable_files_in_order tree_a = [[0x61], [0x62], [0x79]]"
  by (simp add: tree_a_def List.map_filter_simps)

lemma tree_a_renamed_order: "readable_files_in_order tree_a_renamed = [[0x61], [0x62], [0x79]]"
  by (simp add: tree_a_renamed_def List.map_filter_simps)

theorem calculate_checksum_reference_witness:
  "readable_files_in_order tree_a_renamed = readable_files_in_order tree_a \<and>
   calculate_checksum tree_a_renamed = calculate_checksum tree_a \<and>
   strict_mono ((#) CHR ''z'') \<and> no_readable_files tree_unreadable \<and>
   calculate_checksum tree_unreadable = reference_checksum tree_unreadable \<and>
   calculate_checksum (rename ((#) CHR ''z'') tree_unreadable) = calculate_checksum tree_unreadable \<and>
   calculate_checksum tree_unreadable =
     ''e3b0c44298fc1c149afbf4c8996fb92427ae41e4649b934ca495991b7852b855''"
proof -
  have o: "readable_files_in_order tree_a_renamed = readable_files_in_order tree_a"
    by (simp only: tree_a_order tree_a_renamed_order)
  have m: "strict_mono ((#) CHR ''z'')"
    by (rule strict_mono_Cons)
  have n: "no_readable_files tree_unreadable"
    by (simp add: tree_unreadable_def)
  from o calculate_checksum_reference [of tree_a tree_a_renamed]
  have r: "calculate_checksum tree_a_renamed = calculate_checksum tree_a"
    by blast
  from m n calculate_checksum_reference [of tree_unreadable tree_unreadable "(#) CHR ''z''"]
  have u: "calculate_checksum tree_unreadable = reference_checksum tree_unreadable \<and>
      calculate_checksum (rename ((#) CHR ''z'') tree_unreadable) = calculate_checksum tree_unreadable \<and>
      calculate_checksum tree_unreadable =
        ''e3b0c44298fc1c149afbf4c8996fb92427ae41e4649b934ca495991b7852b855''"
    by blast
  note u1 = u [THEN conjunct1] and u2 = u [THEN conjunct2, THEN conjunct1]
    and u3 = u [THEN conjunct2, THEN conjunct2]
  show ?thesis by (intro conjI o r m n u1 u2 u3)
qed

section \<open>Properties of the orchestrator\<close>

lemmas step_defs = mkdir_def clone_repository_def create_archive_def py_stat_def exists_def
  rmtree_def verify_archive_def on_exception_def checksum_of_def record_call_def add_error_def

lemma backup_repository_total:
  "mkdir e s (backup_dir s @ ''/temp/'' @ R) = Inr s0 \<Longrightarrow> \<exists>info s'. backup_repository e s R = Inr (info, s')"
  by (auto simp: backup_repository_def Let_def split: sum.splits prod.splits bool.splits)

lemma backup_repository_frame:
  "backup_repository e s R = Inr (info, s') \<Longrightarrow>
   name info = R \<and> backup_dir s' = backup_dir s \<and> timestamp s' = timestamp s \<and>
   repositories (backup_log s') = repositories (backup_log s) \<and>
   (status info = ''failed'' \<or> status info = ''success'')"
  by (auto simp: backup_repository_def Let_def step_defs split: sum.splits prod.splits bool.splits option.splits if_splits)

lemma backup_repository_success:
  "backup_repository e s R = Inr (info, s') \<Longrightarrow> status info = ''success'' \<Longrightarrow>
   checksum info \<noteq> None \<and> 0 < size_bytes info \<and>
   archive_path info = Some (backup_dir s @ ''/'' @ R @ ''_'' @ timestamp s @ ''.tar.gz'') \<and>
   exists s' (backup_dir s @ ''/'' @ R @ ''_'' @ timestamp s @ ''.tar.gz'') \<and>
   map_option st_size (map_of (store s') (backup_dir s @ ''/'' @ R @ ''_'' @ timestamp s @ ''.tar.gz'')) = Some (size_bytes info)"
  by (auto simp: backup_repository_def Let_def step_defs split: sum.splits prod.splits bool.splits option.splits if_splits)

lemma backup_repository_failed_size:
  "backup_repository e s R = Inr (info, s') \<Longrightarrow> status info \<noteq> ''success'' \<Longrightarrow>
   status info = ''failed'' \<and> size_bytes info = 0"
  by (auto simp: backup_repository_def Let_def step_defs split: sum.splits prod.splits bool.splits option.splits if_splits)

lemmas eval_defs = env_ok_def env_beta_clone_fails_def env_empty_archive_def env_list_fails_def
  env_no_name_def env_no_repos_def sys0_def BackupSystem_init_def
  backup_all_repositories_def get_all_repositories_def backup_repository_def append_record_def
  gh_repo_list_cmd_def step_defs Let_def

lemma repo_names_Inr:
  "repo_names ds = Inr ns \<Longrightarrow>
   ns = filter (\<lambda>n. n \<noteq> ''backup'') (map (\<lambda>d. the (d ''name'')) ds) \<and> ''backup'' \<notin> set ns"
  by (induction ds arbitrary: ns) (auto split: option.splits sum.splits if_splits)

text \<open>
  \<^bold>\<open>C9\<close> (enumerator contract). \<open>get_all_repositories\<close> issues exactly one listing
  command, with \<^verbatim>\<open>--limit 100\<close>; the name \<open>backup\<close> is never in the result; when
  the listing call fails (the command or the JSON decoding raises, or a descriptor has no
  \<open>name\<close>) the result is empty and exactly one diagnostic is appended to \<open>errors\<close>;
  otherwise the result is the names other than \<open>backup\<close>, in order, and \<open>errors\<close> is
  unchanged. The function returns a value in every case: it has no exceptional result.
\<close>

theorem get_all_repositories_contract:
  "invoked (snd (get_all_repositories e s)) =
     invoked s @ [[''gh'', ''repo'', ''list'', ''InfinityXOneSystems'', ''--limit'', ''100'', ''--json'', ''name'']] \<and>
   ''backup'' \<notin> set (fst (get_all_repositories e s)) \<and>
   (gh_repo_list e = Inl msg \<longrightarrow>
      fst (get_all_repositories e s) = [] \<and>
      errors (backup_log (snd (get_all_repositories e s))) =
        errors (backup_log s) @ [''Failed to list repositories: '' @ msg]) \<and>
   (gh_repo_list e = Inr ds \<and> repo_names ds = Inl msg \<longrightarrow>
      fst (get_all_repositories e s) = [] \<and>
      errors (backup_log (snd (get_all_repositories e s))) =
        errors (backup_log s) @ [''Failed to list repositories: '' @ msg]) \<and>
   (gh_repo_list e = Inr ds \<and> repo_names ds = Inr ns \<longrightarrow>
      fst (get_all_repositories e s) = filter (\<lambda>n. n \<noteq> ''backup'') (map (\<lambda>d. the (d ''name'')) ds) \<and>
      errors (backup_log (snd (get_all_repositories e s))) = errors (backup_log s))"
proof -
  have nb: "''backup'' \<notin> set (fst (get_all_repositories e s))"
    by (auto simp: get_all_repositories_def Let_def split: sum.splits dest: repo_names_Inr [THEN conjunct2])
  have ok: "fst (get_all_repositories e s) = filter (\<lambda>n. n \<noteq> ''backup'') (map (\<lambda>d. the (d ''name'')) ds)"
    if "gh_repo_list e = Inr ds" "repo_names ds = Inr ns"
    using that repo_names_Inr [OF that(2)] by (simp add: get_all_repositories_def Let_def)
  show ?thesis
    using nb ok
    by (simp add: get_all_repositories_def Let_def record_call_def add_error_def gh_repo_list_cmd_def
        split: sum.splits)
qed

lemma get_all_repositories_frame:
  "get_all_repositories e s = (repos, s1) \<Longrightarrow>
   repositories (backup_log s1) = repositories (backup_log s) \<and> backup_dir s1 = backup_dir s \<and>
   timestamp s1 = timestamp s \<and> workspaces s1 = workspaces s \<and> store s1 = store s"
  by (auto simp: get_all_repositories_def Let_def record_call_def add_error_def split: sum.splits)

theorem get_all_repositories_contract_witness:
  "gh_repo_list env_list_fails = Inl ''gh: exit status 4'' \<and>
   fst (get_all_repositories env_list_fails sys0) = [] \<and>
   errors (backup_log (snd (get_all_repositories env_list_fails sys0))) =
     [''Failed to list repositories: gh: exit status 4''] \<and>
   repo_names [[''name'' \<mapsto> ''alpha''], [''id'' \<mapsto> ''7'']] = Inl (quoted ''name'') \<and>
   fst (get_all_repositories env_no_name sys0) = [] \<and>
   errors (backup_log (snd (get_all_repositories env_no_name sys0))) =
     [''Failed to list repositories: '' @ quoted ''name''] \<and>
   fst (get_all_repositories env_ok sys0) = [''alpha'', ''beta''] \<and>
   errors (backup_log (snd (get_all_repositories env_ok sys0))) = [] \<and>
   invoked (snd (get_all_repositories env_ok sys0)) =
     [[''gh'', ''repo'', ''list'', ''InfinityXOneSystems'', ''--limit'', ''100'', ''--json'', ''name'']]"
  using
    get_all_repositories_contract [of env_list_fails sys0 "''gh: exit status 4''"]
    get_all_repositories_contract [of env_no_name sys0 "quoted ''name''"
      "[[''name'' \<mapsto> ''alpha''], [''id'' \<mapsto> ''7'']]"]
    get_all_repositories_contract [of env_ok sys0 "[]"
      "[[''name'' \<mapsto> ''alpha''], [''name'' \<mapsto> ''backup''], [''name'' \<mapsto> ''beta'']]"
      "[''alpha'', ''beta'']"]
  by (simp add: env_list_fails_def env_no_name_def env_ok_def sys0_def BackupSystem_init_def)

lemma backup_loop_records:
  "backup_loop e s repos = Inr s' \<Longrightarrow>
   \<exists>new. repositories (backup_log s') = repositories (backup_log s) @ new \<and> map name new = repos"
proof (induction repos arbitrary: s)
  case Nil
  then show ?case by simp
next
  case (Cons r rs)
  from Cons.prems obtain info s1 where
    step: "backup_repository e s r = Inr (info, s1)" and
    rest: "backup_loop e (append_record s1 info) rs = Inr s'"
    by (auto split: sum.splits)
  from backup_repository_frame [OF step] have
    nm: "name info = r" and reps: "repositories (backup_log s1) = repositories (backup_log s)"
    by simp_all
  from Cons.IH [OF rest] obtain new where
    new: "repositories (backup_log s') = repositories (backup_log (append_record s1 info)) @ new"
    "map name new = rs" by (elim exE conjE)
  have "repositories (backup_log s') = repositories (backup_log s) @ (info # new) \<and>
      map name (info # new) = r # rs"
    by (simp add: new nm reps append_record_def)
  then show ?case by (rule exI)
qed

lemma length_filter_eq_all: "(length (filter P xs) = length xs) = (\<forall>x\<in>set xs. P x)"
proof (induction xs)
  case Nil
  show ?case by simp
next
  case (Cons x xs)
  show ?case
  proof (cases "P x")
    case True
    with Cons.IH show ?thesis by simp
  next
    case False
    have "length (filter P xs) \<noteq> Suc (length xs)"
      using length_filter_le [of P xs] by linarith
    with False show ?thesis by simp
  qed
qed

text \<open>
  \<^bold>\<open>C5\<close> (run status aggregation), as amended: the claim holds of a call made on a
  \<open>BackupSystem\<close> whose log holds no records yet, as the first call on a new object is.
  For such a call that returns: the status is \<open>completed\<close> exactly when every record is
  \<open>success\<close>, and \<open>partial\<close> otherwise; the summary counts the records, the
  successful ones and the others, so \<open>total = success + failed\<close> is the number of records;
  there is one record per discovered repository, in order; with no repository discovered the
  status is \<open>completed\<close> and the summary is 0, 0, 0.
\<close>

theorem run_status_aggregation:
  assumes fresh: "repositories (backup_log s) = []"
    and run: "backup_all_repositories e s = Inr (lg, s')"
  shows "(log_status lg = ''completed'' \<longleftrightarrow> (\<forall>r \<in> set (repositories lg). status r = ''success'')) \<and>
   (log_status lg \<noteq> ''completed'' \<longrightarrow> log_status lg = ''partial'') \<and>
   summary lg = Some \<lparr>total = int (length (repositories lg)),
      success = int (length (filter (\<lambda>r. status r = ''success'') (repositories lg))),
      failed = int (length (filter (\<lambda>r. status r \<noteq> ''success'') (repositories lg)))\<rparr> \<and>
   int (length (repositories lg)) =
      int (length (filter (\<lambda>r. status r = ''success'') (repositories lg))) +
      int (length (filter (\<lambda>r. status r \<noteq> ''success'') (repositories lg))) \<and>
   map name (repositories lg) = fst (get_all_repositories e s) \<and>
   backup_log s' = lg \<and>
   (fst (get_all_repositories e s) = [] \<longrightarrow>
      log_status lg = ''completed'' \<and> summary lg = Some \<lparr>total = 0, success = 0, failed = 0\<rparr>)"
proof -
  obtain repos s1 where g: "get_all_repositories e s = (repos, s1)"
    by (cases "get_all_repositories e s")
  from run g obtain s2 where loop: "backup_loop e s1 repos = Inr s2"
    by (simp add: backup_all_repositories_def split: sum.splits)
  let ?rs = "repositories (backup_log s2)"
  let ?k = "length (filter (\<lambda>r. status r = ''success'') ?rs)"
  from backup_loop_records [OF loop] get_all_repositories_frame [OF g] fresh
  have names: "map name ?rs = repos"
    by auto
  have len: "length ?rs = length repos"
    using arg_cong [OF names, of length] by simp
  have split: "length ?rs = ?k + length (filter (\<lambda>r. status r \<noteq> ''success'') ?rs)"
    using sum_length_filter_compl [of "\<lambda>r. status r = ''success''" ?rs] by simp
  have all: "(?k = length ?rs) \<longleftrightarrow> (\<forall>r \<in> set ?rs. status r = ''success'')"
    by (rule length_filter_eq_all)
  let ?L = "(backup_log s2)
      \<lparr>log_status := (if int ?k = int (length repos) then ''completed'' else ''partial''),
       summary := Some \<lparr>total = int (length repos), success = int ?k,
          failed = int (length repos) - int ?k\<rparr>\<rparr>"
  have A: "backup_all_repositories e s = Inr (?L, s2\<lparr>backup_log := ?L\<rparr>)"
    by (simp add: backup_all_repositories_def Let_def g loop)
  from trans [OF run [symmetric] A] have both: "lg = ?L \<and> s' = s2\<lparr>backup_log := ?L\<rparr>"
    by (simp only: sum.inject prod.inject)
  from both have lg: "lg = ?L" ..
  from both have s'0: "s' = s2\<lparr>backup_log := ?L\<rparr>" ..
  have s': "backup_log s' = lg"
    unfolding s'0 lg by simp
  have reps: "repositories lg = ?rs"
    by (simp add: lg)
  have st: "log_status lg = (if ?k = length ?rs then ''completed'' else ''partial'')"
    by (simp add: lg len)
  have diff: "int (length repos) - int ?k = int (length (filter (\<lambda>r. status r \<noteq> ''success'') ?rs))"
    using split len by linarith
  have sm: "summary lg = Some \<lparr>total = int (length ?rs), success = int ?k,
      failed = int (length (filter (\<lambda>r. status r \<noteq> ''success'') ?rs))\<rparr>"
    unfolding lg by (simp add: diff len)
  have c1: "log_status lg = ''completed'' \<longleftrightarrow> (\<forall>r \<in> set ?rs. status r = ''success'')"
    using all by (simp add: st)
  have c2: "log_status lg \<noteq> ''completed'' \<longrightarrow> log_status lg = ''partial''"
    by (simp add: st)
  have c4: "int (length ?rs) = int ?k + int (length (filter (\<lambda>r. status r \<noteq> ''success'') ?rs))"
    using split by linarith
  have c5: "map name ?rs = fst (get_all_repositories e s)"
    by (simp add: names g)
  have c7: "fst (get_all_repositories e s) = [] \<longrightarrow>
      log_status lg = ''completed'' \<and> summary lg = Some \<lparr>total = 0, success = 0, failed = 0\<rparr>"
  proof
    assume "fst (get_all_repositories e s) = []"
    with g len have "?rs = []" by simp
    then show "log_status lg = ''completed'' \<and> summary lg = Some \<lparr>total = 0, success = 0, failed = 0\<rparr>"
      by (simp add: st sm)
  qed
  show ?thesis
    unfolding reps by (intro conjI c1 c2 sm c4 c5 s' c7)
qed

lemma run_beta_clone_fails:
  "(case backup_all_repositories env_beta_clone_fails sys0 of
      Inl msg \<Rightarrow> False
    | Inr (lg, s') \<Rightarrow>
        log_status lg = ''partial'' \<and> summary lg = Some \<lparr>total = 2, success = 1, failed = 1\<rparr> \<and>
        errors lg = [''Failed to clone beta: exit status 1''] \<and>
        map status (repositories lg) = [''success'', ''failed''])"
  by (simp add: eval_defs)

lemma run_no_repos:
  "(case backup_all_repositories env_no_repos sys0 of
      Inl msg \<Rightarrow> False
    | Inr (lg, s') \<Rightarrow>
        log_status lg = ''completed'' \<and> summary lg = Some \<lparr>total = 0, success = 0, failed = 0\<rparr>)"
  by (simp add: eval_defs)

theorem run_status_aggregation_witness:
  "repositories (backup_log sys0) = [] \<and>
   (\<exists>lg s'. backup_all_repositories env_beta_clone_fails sys0 = Inr (lg, s') \<and>
      log_status lg = ''partial'' \<and> map status (repositories lg) = [''success'', ''failed''] \<and>
      summary lg = Some \<lparr>total = 2, success = 1, failed = 1\<rparr> \<and>
      map name (repositories lg) = [''alpha'', ''beta'']) \<and>
   (\<exists>lg s'. backup_all_repositories env_no_repos sys0 = Inr (lg, s') \<and>
      fst (get_all_repositories env_no_repos sys0) = [] \<and>
      log_status lg = ''completed'' \<and> summary lg = Some \<lparr>total = 0, success = 0, failed = 0\<rparr>)"
proof -
  have fresh: "repositories (backup_log sys0) = []"
    by (simp add: sys0_def BackupSystem_init_def)
  obtain lg1 s1 where run1: "backup_all_repositories env_beta_clone_fails sys0 = Inr (lg1, s1)"
    using run_beta_clone_fails by (cases "backup_all_repositories env_beta_clone_fails sys0") auto
  obtain lg2 s2 where run2: "backup_all_repositories env_no_repos sys0 = Inr (lg2, s2)"
    using run_no_repos by (cases "backup_all_repositories env_no_repos sys0") auto
  have names1: "fst (get_all_repositories env_beta_clone_fails sys0) = [''alpha'', ''beta'']"
    by (simp add: eval_defs)
  have names2: "fst (get_all_repositories env_no_repos sys0) = []"
    by (simp add: eval_defs)
  have v1: "log_status lg1 = ''partial''" "map status (repositories lg1) = [''success'', ''failed'']"
    using run_beta_clone_fails by (simp_all add: run1)
  note t1 = run_status_aggregation [OF fresh run1]
  note t2 = run_status_aggregation [OF fresh run2]
  have sum1: "summary lg1 = Some \<lparr>total = 2, success = 1, failed = 1\<rparr>"
    using run_beta_clone_fails by (simp add: run1)
  have part1: "log_status lg1 = ''partial'' \<and> map status (repositories lg1) = [''success'', ''failed''] \<and>
      summary lg1 = Some \<lparr>total = 2, success = 1, failed = 1\<rparr> \<and>
      map name (repositories lg1) = [''alpha'', ''beta'']"
    using t1 v1 sum1 names1 by simp
  have part2: "fst (get_all_repositories env_no_repos sys0) = [] \<and>
      log_status lg2 = ''completed'' \<and> summary lg2 = Some \<lparr>total = 0, success = 0, failed = 0\<rparr>"
    using t2 names2 by simp
  show ?thesis
    using fresh run1 part1 run2 part2 by (intro conjI exI) (assumption | simp)+
qed

text \<open>
  The claim as first stated has no condition on the object. A second call on the same
  \<open>BackupSystem\<close> counts the successes over the four accumulated records and compares
  with the two repositories of that call: every record is \<open>success\<close>, the status is
  \<open>partial\<close> and the summary is total 2, success 4, failed -2.
\<close>

theorem run_status_aggregation_counterexample:
  "map_sum id (map status \<circ> repositories \<circ> fst) (second_call env_ok sys0) =
     Inr [''success'', ''success'', ''success'', ''success''] \<and>
   map_sum id (log_status \<circ> fst) (second_call env_ok sys0) = Inr ''partial'' \<and>
   map_sum id (summary \<circ> fst) (second_call env_ok sys0) =
     Inr (Some \<lparr>total = 2, success = 4, failed = - 2\<rparr>)"
  by (simp add: second_call_def eval_defs)

lemma map_of_distinct_entry:
  "distinct (map fst al) \<Longrightarrow> (k, v) \<in> set al \<Longrightarrow> map_of al k = Some v"
  by simp

lemma cleanup_loop_store:
  "distinct (map fst (store s)) \<Longrightarrow> distinct archs \<Longrightarrow> set archs \<subseteq> fst ` set (store s) \<Longrightarrow>
   \<exists>s'. cleanup_loop e cutoff s archs = Inr s' \<and>
     store s' = filter (\<lambda>x. \<not> prunes e cutoff archs x) (store s) \<and>
     backup_log s' = backup_log s \<and> workspaces s' = workspaces s"
proof (induction archs arbitrary: s)
  case Nil
  then show ?case by (simp add: prunes_def)
next
  case (Cons a archs)
  from Cons.prems obtain st where mem: "(a, st) \<in> set (store s)"
    by auto
  with Cons.prems have look: "map_of (store s) a = Some st"
    by simp
  have uniq: "st' = st" if "(a, st') \<in> set (store s)" for st'
    using that look Cons.prems(1) by (metis map_of_distinct_entry option.inject)
  show ?case
  proof (cases "st_mtime st < cutoff \<and> unlink_fault e a = None")
    case True
    let ?s1 = "print (s\<lparr>store := AList.delete a (store s)\<rparr>) (Removed (basename a))"
    have st1: "store ?s1 = filter (\<lambda>x. fst x \<noteq> a) (store s)"
      by (auto simp: print_def AList.delete_eq intro!: filter_cong)
    have d1: "distinct (map fst (store ?s1))"
      using Cons.prems(1) by (simp add: st1 distinct_map_filter)
    have sub1: "set archs \<subseteq> fst ` set (store ?s1)"
    proof
      fix x assume x: "x \<in> set archs"
      with Cons.prems(3) obtain v where "(x, v) \<in> set (store s)" by auto
      moreover from x Cons.prems(2) have "x \<noteq> a" by auto
      ultimately show "x \<in> fst ` set (store ?s1)" by (force simp: st1)
    qed
    from Cons.IH [OF d1 _ sub1] Cons.prems(2) obtain s' where
      s': "cleanup_loop e cutoff ?s1 archs = Inr s'"
        "store s' = filter (\<lambda>x. \<not> prunes e cutoff archs x) (store ?s1)"
        "backup_log s' = backup_log ?s1" "workspaces s' = workspaces ?s1"
      by auto
    have eq: "filter (\<lambda>x. \<not> prunes e cutoff archs x) (filter (\<lambda>x. fst x \<noteq> a) (store s)) =
        filter (\<lambda>x. \<not> prunes e cutoff (a # archs) x) (store s)"
      unfolding filter_filter
    proof (rule filter_cong [OF refl])
      fix x assume "x \<in> set (store s)"
      then show "(fst x \<noteq> a \<and> \<not> prunes e cutoff archs x) = (\<not> prunes e cutoff (a # archs) x)"
        using True uniq [of "snd x"] by (cases x) (auto simp: prunes_def)
    qed
    have r1: "cleanup_loop e cutoff s (a # archs) = Inr s'"
      using True s'(1) by (simp add: py_stat_def look unlink_def)
    have r2: "store s' = filter (\<lambda>x. \<not> prunes e cutoff (a # archs) x) (store s)"
      using s'(2) unfolding st1 eq .
    have r3: "backup_log s' = backup_log s" "workspaces s' = workspaces s"
      using s'(3,4) by (simp_all add: print_def)
    from r1 r2 r3 show ?thesis by simp
  next
    case False
    let ?s1 = "if st_mtime st < cutoff
      then print s (RemoveFailed (basename a) (the (unlink_fault e a))) else s"
    have st1: "store ?s1 = store s"
      by (simp add: print_def)
    from Cons.IH [of ?s1] Cons.prems obtain s' where
      s': "cleanup_loop e cutoff ?s1 archs = Inr s'"
        "store s' = filter (\<lambda>x. \<not> prunes e cutoff archs x) (store ?s1)"
        "backup_log s' = backup_log ?s1" "workspaces s' = workspaces ?s1"
      unfolding st1 by auto
    have eq: "filter (\<lambda>x. \<not> prunes e cutoff archs x) (store s) =
        filter (\<lambda>x. \<not> prunes e cutoff (a # archs) x) (store s)"
    proof (rule filter_cong [OF refl])
      fix x assume "x \<in> set (store s)"
      then show "(\<not> prunes e cutoff archs x) = (\<not> prunes e cutoff (a # archs) x)"
        using False uniq [of "snd x"] by (cases x) (auto simp: prunes_def)
    qed
    have r1: "cleanup_loop e cutoff s (a # archs) = Inr s'"
      using False s'(1) by (auto simp: py_stat_def look unlink_def split: option.splits)
    have r2: "store s' = filter (\<lambda>x. \<not> prunes e cutoff (a # archs) x) (store s)"
      using s'(2) unfolding st1 eq .
    have r3: "backup_log s' = backup_log s" "workspaces s' = workspaces s"
      using s'(3,4) by (simp_all add: print_def)
    from r1 r2 r3 show ?thesis by simp
  qed
qed


text \<open>
  What \<open>cleanup_old_backups\<close> removes when nothing raises outside the \<^verbatim>\<open>try\<close>: in a
  directory of distinct files with no dangling link, and a retention that converts to a
  float, the archives whose age exceeds \<open>retention_days * 86400 + utcoffset e\<close> and whose
  \<^verbatim>\<open>unlink\<close> did not raise. The age test is the one of the docstring only where
  \<open>utcoffset e = 0\<close>.
\<close>

lemma cleanup_old_backups_removes:
  assumes d: "distinct (map fst (store s))"
    and l: "links s = []"
    and r: "\<bar>retention_days * 86400\<bar> < 2 ^ 1024 - 2 ^ 970"
  shows "\<exists>s'. cleanup_old_backups e s retention_days = Inr s' \<and>
     store s' = filter (\<lambda>x. \<not> (suffix ''.tar.gz'' (basename (fst x)) \<and>
                              utcnow e - st_mtime (snd x) > real_of_int retention_days * 86400 + utcoffset e \<and>
                              unlink_fault e (fst x) = None)) (store s) \<and>
     backup_log s' = backup_log s \<and> workspaces s' = workspaces s"
proof -
  let ?archs = "glob s ''.tar.gz''"
  let ?cutoff = "utcnow_timestamp e - real_of_int (retention_days * 86400)"
  have da: "distinct ?archs"
    using d l by (simp add: glob_def scandir_def)
  have sub: "set ?archs \<subseteq> fst ` set (store s)"
    using l by (auto simp: glob_def scandir_def)
  from cleanup_loop_store [OF d da sub, of e ?cutoff] obtain s' where
    s': "cleanup_loop e ?cutoff s ?archs = Inr s'"
      "store s' = filter (\<lambda>x. \<not> prunes e ?cutoff ?archs x) (store s)"
      "backup_log s' = backup_log s" "workspaces s' = workspaces s"
    by (elim exE conjE)
  have eq: "filter (\<lambda>x. \<not> prunes e ?cutoff ?archs x) (store s) =
      filter (\<lambda>x. \<not> (suffix ''.tar.gz'' (basename (fst x)) \<and>
                       utcnow e - st_mtime (snd x) > real_of_int retention_days * 86400 + utcoffset e \<and>
                       unlink_fault e (fst x) = None)) (store s)"
  proof (rule filter_cong [OF refl])
    fix x assume "x \<in> set (store s)"
    then have "fst x \<in> set ?archs \<longleftrightarrow> suffix ''.tar.gz'' (basename (fst x))"
      using l by (auto simp: glob_def scandir_def)
    moreover have "st_mtime (snd x) < ?cutoff \<longleftrightarrow>
        utcnow e - st_mtime (snd x) > real_of_int retention_days * 86400 + utcoffset e"
      by (auto simp: utcnow_timestamp_def)
    ultimately show "(\<not> prunes e ?cutoff ?archs x) =
        (\<not> (suffix ''.tar.gz'' (basename (fst x)) \<and>
            utcnow e - st_mtime (snd x) > real_of_int retention_days * 86400 + utcoffset e \<and>
            unlink_fault e (fst x) = None))"
      by (simp add: prunes_def)
  qed
  have r1: "cleanup_old_backups e s retention_days = Inr s'"
    using s'(1) r by (simp add: cleanup_old_backups_def float_of_int_def Let_def)
  have r2: "store s' = filter (\<lambda>x. \<not> (suffix ''.tar.gz'' (basename (fst x)) \<and>
                              utcnow e - st_mtime (snd x) > real_of_int retention_days * 86400 + utcoffset e \<and>
                              unlink_fault e (fst x) = None)) (store s)"
    using s'(2) unfolding eq .
  from r1 r2 s'(3,4) show ?thesis by simp
qed

lemmas cleanup_defs = cleanup_old_backups_def float_of_int_def utcnow_timestamp_def glob_def
  scandir_def py_stat_def unlink_def print_def basename_def suffix_to_prefix Let_def
  sys_retention_def sys_retention_link_def BackupSystem_init_def
  env_unlink_fails_def env_new_york_def env_ok_def

text \<open>
  \<^bold>\<open>C7\<close> (retention pruning). The rule of the specification, and of the docstring
  \<^verbatim>\<open>Remove backups older than retention period\<close>, is that an archive is deleted exactly
  when its age exceeds \<open>retention_days * 86400\<close> seconds. The code computes the cutoff from
  \<^verbatim>\<open>datetime.utcnow().timestamp()\<close>, which is off the scale of \<^verbatim>\<open>st_mtime\<close> by the UTC
  offset of the host. On 2024-02-10T00:00:00Z with a retention of 30 days, a host in UTC
  removes the archive of 40 days, keeps the one of exactly 30 days and the one of 29 days
  20 hours, and goes on after an \<^verbatim>\<open>unlink\<close> that raises. A host five hours behind UTC,
  on the same directory at the same moment, also removes the archive of exactly 30 days and
  the one of 29 days 20 hours, which are not older than the retention period. Moreover
  \<^verbatim>\<open>stat()\<close> is outside the \<^verbatim>\<open>try\<close>: a link named \<^verbatim>\<open>latest.tar.gz\<close> whose target is
  missing makes the method raise instead of pruning, and so does a retention of
  \<open>2 ^ 1024\<close> days, whose seconds do not convert to a float.
\<close>

theorem retention_pruning_clock_offset:
  "map_sum id (map fst \<circ> store) (cleanup_old_backups env_unlink_fails sys_retention 30) =
     Inr [''/b/locked_20240101_000000.tar.gz'', ''/b/edge_20240111_000000.tar.gz'',
          ''/b/recent_20240111_040000.tar.gz'', ''/b/new_20240131_000000.tar.gz'',
          ''/b/backup_log_20240101_000000.json''] \<and>
   map_sum id (map fst \<circ> store) (cleanup_old_backups env_new_york sys_retention 30) =
     Inr [''/b/locked_20240101_000000.tar.gz'', ''/b/new_20240131_000000.tar.gz'',
          ''/b/backup_log_20240101_000000.json''] \<and>
   map_sum id console (cleanup_old_backups env_new_york sys_retention 30) =
     Inr [Removed ''old_20240101_000000.tar.gz'',
          RemoveFailed ''locked_20240101_000000.tar.gz'' ''[Errno 13] Permission denied'',
          Removed ''edge_20240111_000000.tar.gz'',
          Removed ''recent_20240111_040000.tar.gz''] \<and>
   utcnow env_new_york - 1704945600 = 29 * 86400 + 20 * 3600 \<and>
   cleanup_old_backups env_unlink_fails sys_retention_link 30 =
     Inl (''[Errno 2] No such file or directory: '' @ quoted ''/b/latest.tar.gz'') \<and>
   cleanup_old_backups env_unlink_fails sys_retention (2 ^ 1024) =
     Inl ''int too large to convert to float''"
  by (simp add: cleanup_defs)

lemma clone_repository_False:
  "clone_repository e s0 R d = (False, s1) \<Longrightarrow>
   \<exists>msg. errors (backup_log s1) = errors (backup_log s0) @ [''Failed to clone '' @ R @ '': '' @ msg]"
  by (auto simp: clone_repository_def Let_def record_call_def add_error_def split: sum.splits)

lemma clone_repository_True:
  "clone_repository e s0 R d = (True, s1) \<Longrightarrow> errors (backup_log s1) = errors (backup_log s0)"
  by (auto simp: clone_repository_def Let_def record_call_def add_error_def split: sum.splits)

lemma mkdir_errors: "mkdir e s p = Inr s0 \<Longrightarrow> errors (backup_log s0) = errors (backup_log s)"
  by (auto simp: mkdir_def split: option.splits)

lemma create_archive_errors:
  "create_archive e s1 d R = Inr (p, s2) \<Longrightarrow> errors (backup_log s2) = errors (backup_log s1)"
  by (auto simp: create_archive_def Let_def split: sum.splits option.splits)

lemma backup_repository_clone_fails:
  assumes "mkdir e s (backup_dir s @ ''/temp/'' @ R) = Inr s0"
    and "clone_repository e s0 R (backup_dir s @ ''/temp/'' @ R) = (False, s1)"
  shows "backup_repository e s R =
      Inr (\<lparr>name = R, info_timestamp = timestamp s, status = ''failed'', checksum = None,
            size_bytes = 0, archive_path = None, error = None\<rparr>, s1)"
  using assms by (simp add: backup_repository_def Let_def)

lemma backup_repository_archive_raises:
  assumes "mkdir e s (backup_dir s @ ''/temp/'' @ R) = Inr s0"
    and "clone_repository e s0 R (backup_dir s @ ''/temp/'' @ R) = (True, s1)"
    and "create_archive e s1 (backup_dir s @ ''/temp/'' @ R) R = Inl msg"
  shows "backup_repository e s R =
      Inr (\<lparr>name = R, info_timestamp = timestamp s, status = ''failed'',
            checksum = Some (checksum_of s1 (backup_dir s @ ''/temp/'' @ R)),
            size_bytes = 0, archive_path = None, error = Some msg\<rparr>,
           add_error s1 (''Backup failed for '' @ R @ '': '' @ msg))"
  using assms by (simp add: backup_repository_def Let_def on_exception_def)

lemma backup_repository_stat_raises:
  assumes "mkdir e s (backup_dir s @ ''/temp/'' @ R) = Inr s0"
    and "clone_repository e s0 R (backup_dir s @ ''/temp/'' @ R) = (True, s1)"
    and "create_archive e s1 (backup_dir s @ ''/temp/'' @ R) R = Inr (p, s2)"
    and "py_stat s2 p = Inl msg"
  shows "backup_repository e s R =
      Inr (\<lparr>name = R, info_timestamp = timestamp s, status = ''failed'',
            checksum = Some (checksum_of s1 (backup_dir s @ ''/temp/'' @ R)),
            size_bytes = 0, archive_path = Some p, error = Some msg\<rparr>,
           add_error s2 (''Backup failed for '' @ R @ '': '' @ msg))"
  using assms by (simp add: backup_repository_def Let_def on_exception_def)

lemma backup_repository_empty_archive:
  assumes "mkdir e s (backup_dir s @ ''/temp/'' @ R) = Inr s0"
    and "clone_repository e s0 R (backup_dir s @ ''/temp/'' @ R) = (True, s1)"
    and "create_archive e s1 (backup_dir s @ ''/temp/'' @ R) R = Inr (p, s2)"
    and "py_stat s2 p = Inr st" and "st_size st = 0"
  shows "backup_repository e s R =
      (case rmtree e s2 (backup_dir s @ ''/temp/'' @ R) of
         Inr s3 \<Rightarrow>
           Inr (\<lparr>name = R, info_timestamp = timestamp s, status = ''failed'',
                 checksum = Some (checksum_of s1 (backup_dir s @ ''/temp/'' @ R)),
                 size_bytes = 0, archive_path = Some p, error = None\<rparr>, s3)
       | Inl msg \<Rightarrow>
           Inr (\<lparr>name = R, info_timestamp = timestamp s, status = ''failed'',
                 checksum = Some (checksum_of s1 (backup_dir s @ ''/temp/'' @ R)),
                 size_bytes = 0, archive_path = Some p, error = Some msg\<rparr>,
                add_error s2 (''Backup failed for '' @ R @ '': '' @ msg)))"
  using assms
  by (simp add: backup_repository_def Let_def on_exception_def verify_archive_def exists_def py_stat_def
      split: sum.splits option.splits)

lemma rmtree_errors: "rmtree e s2 p = Inr s3 \<Longrightarrow> errors (backup_log s3) = errors (backup_log s2)"
  by (auto simp: rmtree_def split: option.splits)

lemma backup_repository_paths_case:
  "(case backup_repository e s n of Inl msg \<Rightarrow> True
    | Inr x \<Rightarrow>
   (p \<noteq> backup_dir s @ ''/temp/'' @ n \<longrightarrow> workspaces (snd x) p = workspaces s p) \<and>
   (q \<noteq> backup_dir s @ ''/'' @ n @ ''_'' @ timestamp s @ ''.tar.gz'' \<longrightarrow>
      map_of (store (snd x)) q = map_of (store s) q) \<and>
   (exists s q \<longrightarrow> exists (snd x) q))"
  by (auto simp: backup_repository_def Let_def step_defs update_conv'
      split: sum.split prod.split bool.split option.split)

lemma rel_sumE [consumes 1]:
  assumes "rel_sum A B x y"
  obtains (Inl) a b where "x = Inl a" "y = Inl b" "A a b"
    | (Inr) a b where "x = Inr a" "y = Inr b" "B a b"
  using assms by (cases rule: rel_sum.cases) auto

lemma mkdir_sim:
  "agree_at p q s1 s2 \<Longrightarrow> mkdir_fault e2 p = mkdir_fault e1 p \<Longrightarrow>
   rel_sum (=) (agree_at p q) (mkdir e1 s1 p) (mkdir e2 s2 p)"
  by (simp add: mkdir_def agree_at_def split: option.split)

lemma clone_repository_sim:
  "agree_at p q s1 s2 \<Longrightarrow> gh_repo_clone e2 n = gh_repo_clone e1 n \<Longrightarrow>
   rel_prod (=) (agree_at p q) (clone_repository e1 s1 n p) (clone_repository e2 s2 n p)"
  by (simp add: clone_repository_def Let_def record_call_def add_error_def agree_at_def split: sum.split)

lemma create_archive_sim:
  "agree_at p q s1 s2 \<Longrightarrow> q = backup_dir s1 @ ''/'' @ n @ ''_'' @ timestamp s1 @ ''.tar.gz'' \<Longrightarrow>
   make_archive e2 (backup_dir s1 @ ''/'' @ n @ ''_'' @ timestamp s1) =
   make_archive e1 (backup_dir s1 @ ''/'' @ n @ ''_'' @ timestamp s1) \<Longrightarrow>
   rel_sum (=) (rel_prod (\<lambda>a b. a = q \<and> b = q) (agree_at p q))
     (create_archive e1 s1 p n) (create_archive e2 s2 p n)"
  by (simp add: create_archive_def Let_def agree_at_def update_conv' split: sum.split option.split)

lemma py_stat_sim: "agree_at p q s1 s2 \<Longrightarrow> py_stat s2 q = py_stat s1 q"
  by (simp add: py_stat_def agree_at_def)

lemma verify_archive_sim: "agree_at p q s1 s2 \<Longrightarrow> verify_archive s2 q = verify_archive s1 q"
  by (simp add: verify_archive_def exists_def py_stat_def agree_at_def)

lemma checksum_of_sim: "agree_at p q s1 s2 \<Longrightarrow> checksum_of s2 p = checksum_of s1 p"
  by (simp add: checksum_of_def agree_at_def)

lemma rmtree_sim:
  "agree_at p q s1 s2 \<Longrightarrow> rmtree_fault e2 p = rmtree_fault e1 p \<Longrightarrow>
   rel_sum (=) (agree_at p q) (rmtree e1 s1 p) (rmtree e2 s2 p)"
  by (simp add: rmtree_def agree_at_def split: option.split)

lemma on_exception_sim:
  "agree_at p q s1 s2 \<Longrightarrow>
   rel_prod (=) (agree_at p q) (on_exception i s1 n msg) (on_exception i s2 n msg)"
  by (simp add: on_exception_def add_error_def agree_at_def)

lemma backup_repository_sim:
  assumes ag: "agree_at p q s1 s2"
    and p: "p = backup_dir s1 @ ''/temp/'' @ n"
    and q: "q = backup_dir s1 @ ''/'' @ n @ ''_'' @ timestamp s1 @ ''.tar.gz''"
    and c: "gh_repo_clone e2 n = gh_repo_clone e1 n"
    and m: "mkdir_fault e2 p = mkdir_fault e1 p"
    and r: "rmtree_fault e2 p = rmtree_fault e1 p"
    and a: "make_archive e2 (backup_dir s1 @ ''/'' @ n @ ''_'' @ timestamp s1) =
            make_archive e1 (backup_dir s1 @ ''/'' @ n @ ''_'' @ timestamp s1)"
  shows "rel_sum (=) (rel_prod (=) (agree_at p q)) (backup_repository e1 s1 n) (backup_repository e2 s2 n)"
proof -
  have bd: "backup_dir s2 = backup_dir s1" and ts: "timestamp s2 = timestamp s1"
    using ag by (simp_all add: agree_at_def)
  have p2: "backup_dir s2 @ ''/temp/'' @ n = p"
    by (simp add: p bd)
  have p1: "backup_dir s1 @ ''/temp/'' @ n = p"
    by (simp add: p)
  note unf = backup_repository_def Let_def p1 [simplified] p2 [simplified] ts
  from mkdir_sim [OF ag m] show ?thesis
  proof (cases rule: rel_sumE)
    case (Inl x y)
    then show ?thesis by (simp add: unf)
  next
    case (Inr a0 b0)
    note mk = Inr
    obtain c1 a1 where cl1: "clone_repository e1 a0 n p = (c1, a1)"
      by (cases "clone_repository e1 a0 n p")
    obtain c2 b1 where cl2: "clone_repository e2 b0 n p = (c2, b1)"
      by (cases "clone_repository e2 b0 n p")
    from clone_repository_sim [OF mk(3) c] have cc: "c2 = c1" and ag1: "agree_at p q a1 b1"
      by (simp_all add: cl1 cl2)
    show ?thesis
    proof (cases c1)
      case False
      then show ?thesis using ag1 by (simp add: unf mk cl1 cl2 cc)
    next
      case True
      have bd1: "backup_dir a1 = backup_dir s1" "timestamp a1 = timestamp s1"
        using cl1 mk(1) by (auto simp: clone_repository_def Let_def record_call_def add_error_def
            mkdir_def split: sum.splits option.splits)
      have q1: "q = backup_dir a1 @ ''/'' @ n @ ''_'' @ timestamp a1 @ ''.tar.gz''"
        by (simp add: q bd1)
      have a1: "make_archive e2 (backup_dir a1 @ ''/'' @ n @ ''_'' @ timestamp a1) =
            make_archive e1 (backup_dir a1 @ ''/'' @ n @ ''_'' @ timestamp a1)"
        unfolding bd1 by (rule a)
      have ck: "checksum_of b1 p = checksum_of a1 p"
        using ag1 by (rule checksum_of_sim)
      from create_archive_sim [OF ag1 q1 a1] show ?thesis
      proof (cases rule: rel_sumE)
        case (Inl x y)
        then show ?thesis
          using on_exception_sim [OF ag1] by (simp add: unf mk cl1 cl2 cc True ck)
      next
        case (Inr x y)
        obtain a2 where x: "x = (q, a2)" using Inr(3) by (cases x; cases y) auto
        obtain b2 where y: "y = (q, b2)" using Inr(3) by (cases x; cases y) auto
        have ag2: "agree_at p q a2 b2" using Inr(3) by (simp add: x y)
        note ca = Inr(1,2) [unfolded x y]
        have st: "py_stat b2 q = py_stat a2 q" using ag2 by (rule py_stat_sim)
        have vf: "verify_archive b2 q = verify_archive a2 q" using ag2 by (rule verify_archive_sim)
        show ?thesis
        proof (cases "py_stat a2 q")
          case (Inl msg)
          then show ?thesis
            using on_exception_sim [OF ag2] by (simp add: unf mk cl1 cl2 cc True ck ca st)
        next
          case stat: (Inr st1)
          show ?thesis
          proof (cases "verify_archive a2 q")
            case (Inl msg)
            then show ?thesis
              using on_exception_sim [OF ag2] by (simp add: unf mk cl1 cl2 cc True ck ca st stat vf)
          next
            case ver: (Inr ok)
            from rmtree_sim [OF ag2 r] show ?thesis
            proof (cases rule: rel_sumE)
              case (Inl x y)
              then show ?thesis
                using on_exception_sim [OF ag2]
                by (simp add: unf mk cl1 cl2 cc True ck ca st stat vf ver)
            next
              case (Inr x y)
              then show ?thesis
                by (simp add: unf mk cl1 cl2 cc True ck ca st stat vf ver)
            qed
          qed
        qed
      qed
    qed
  qed
qed

lemma backup_repository_other_paths:
  assumes "backup_repository e s n = Inr (i, t)"
  shows "p \<noteq> backup_dir s @ ''/temp/'' @ n \<Longrightarrow> workspaces t p = workspaces s p"
    and "q \<noteq> backup_dir s @ ''/'' @ n @ ''_'' @ timestamp s @ ''.tar.gz'' \<Longrightarrow>
      map_of (store t) q = map_of (store s) q"
    and "exists s q \<Longrightarrow> exists t q"
  using backup_repository_paths_case [where e = e and s = s and n = n and p = p and q = q] assms by simp_all

lemma backup_repository_agree_other:
  assumes r1: "backup_repository e1 s1 r = Inr (i1, t1)"
    and r2: "backup_repository e2 s2 r = Inr (i2, t2)"
    and ag: "agree_at (backup_dir s1 @ ''/temp/'' @ n)
           (backup_dir s1 @ ''/'' @ n @ ''_'' @ timestamp s1 @ ''.tar.gz'') s1 s2"
    and ne: "n \<noteq> r"
  shows "agree_at (backup_dir s1 @ ''/temp/'' @ n)
           (backup_dir s1 @ ''/'' @ n @ ''_'' @ timestamp s1 @ ''.tar.gz'') t1 t2"
proof -
  have bd: "backup_dir s2 = backup_dir s1" and ts: "timestamp s2 = timestamp s1"
    using ag by (simp_all add: agree_at_def)
  have p1: "backup_dir s1 @ ''/temp/'' @ n \<noteq> backup_dir s1 @ ''/temp/'' @ r"
    and q1: "backup_dir s1 @ ''/'' @ n @ ''_'' @ timestamp s1 @ ''.tar.gz'' \<noteq>
             backup_dir s1 @ ''/'' @ r @ ''_'' @ timestamp s1 @ ''.tar.gz''"
    using ne by simp_all
  have p2: "backup_dir s1 @ ''/temp/'' @ n \<noteq> backup_dir s2 @ ''/temp/'' @ r"
    and q2: "backup_dir s1 @ ''/'' @ n @ ''_'' @ timestamp s1 @ ''.tar.gz'' \<noteq>
             backup_dir s2 @ ''/'' @ r @ ''_'' @ timestamp s2 @ ''.tar.gz''"
    unfolding bd ts using ne by simp_all
  note f1 = backup_repository_other_paths(1,2) [OF r1] backup_repository_frame [OF r1]
  note f2 = backup_repository_other_paths(1,2) [OF r2] backup_repository_frame [OF r2]
  show ?thesis
    using ag f1(1) [OF p1] f1(2) [OF q1] f2(1) [OF p2] f2(2) [OF q2] f1(3) f2(3)
    by (simp add: agree_at_def)
qed

lemma backup_loop_agree_off:
  assumes env: "\<And>n. n \<noteq> R \<Longrightarrow>
      gh_repo_clone e2 n = gh_repo_clone e1 n \<and>
      mkdir_fault e2 (bd @ ''/temp/'' @ n) = mkdir_fault e1 (bd @ ''/temp/'' @ n) \<and>
      rmtree_fault e2 (bd @ ''/temp/'' @ n) = rmtree_fault e1 (bd @ ''/temp/'' @ n) \<and>
      make_archive e2 (bd @ ''/'' @ n @ ''_'' @ ts) = make_archive e1 (bd @ ''/'' @ n @ ''_'' @ ts)"
  shows "backup_dir s1 = bd \<Longrightarrow> timestamp s1 = ts \<Longrightarrow> agree_off R s1 s2 \<Longrightarrow>
    backup_loop e1 s1 repos = Inr t1 \<Longrightarrow> backup_loop e2 s2 repos = Inr t2 \<Longrightarrow> agree_off R t1 t2"
proof (induction repos arbitrary: s1 s2)
  case Nil
  then show ?case by simp
next
  case (Cons r rs)
  from Cons.prems(4) obtain i1 u1 where
    r1: "backup_repository e1 s1 r = Inr (i1, u1)" and
    l1: "backup_loop e1 (append_record u1 i1) rs = Inr t1"
    by (auto split: sum.splits)
  from Cons.prems(5) obtain i2 u2 where
    r2: "backup_repository e2 s2 r = Inr (i2, u2)" and
    l2: "backup_loop e2 (append_record u2 i2) rs = Inr t2"
    by (auto split: sum.splits)
  note f1 = backup_repository_frame [OF r1]
  note f2 = backup_repository_frame [OF r2]
  have bd2: "backup_dir s2 = backup_dir s1" and ts2: "timestamp s2 = timestamp s1"
    and recs: "filter (\<lambda>i. name i \<noteq> R) (repositories (backup_log s2)) =
      filter (\<lambda>i. name i \<noteq> R) (repositories (backup_log s1))"
    and at: "\<And>n. n \<noteq> R \<Longrightarrow> agree_at (backup_dir s1 @ ''/temp/'' @ n)
           (backup_dir s1 @ ''/'' @ n @ ''_'' @ timestamp s1 @ ''.tar.gz'') s1 s2"
    using Cons.prems(3) by (simp_all add: agree_off_def)
  have bdu: "backup_dir u1 = backup_dir s1" "timestamp u1 = timestamp s1"
    using f1 by simp_all
  have same: "i2 = i1 \<and> agree_at (backup_dir s1 @ ''/temp/'' @ r)
           (backup_dir s1 @ ''/'' @ r @ ''_'' @ timestamp s1 @ ''.tar.gz'') u1 u2" if "r \<noteq> R"
  proof -
    note e = env [OF that, unfolded Cons.prems(1) [symmetric] Cons.prems(2) [symmetric]]
    from e have c: "gh_repo_clone e2 r = gh_repo_clone e1 r"
      and m: "mkdir_fault e2 (backup_dir s1 @ ''/temp/'' @ r) = mkdir_fault e1 (backup_dir s1 @ ''/temp/'' @ r)"
      and rr: "rmtree_fault e2 (backup_dir s1 @ ''/temp/'' @ r) = rmtree_fault e1 (backup_dir s1 @ ''/temp/'' @ r)"
      and a: "make_archive e2 (backup_dir s1 @ ''/'' @ r @ ''_'' @ timestamp s1) =
              make_archive e1 (backup_dir s1 @ ''/'' @ r @ ''_'' @ timestamp s1)"
      by simp_all
    from backup_repository_sim [OF at [OF that] refl refl c m rr a]
    show ?thesis by (simp add: r1 r2)
  qed
  have other: "agree_at (backup_dir s1 @ ''/temp/'' @ n)
           (backup_dir s1 @ ''/'' @ n @ ''_'' @ timestamp s1 @ ''.tar.gz'') u1 u2"
    if "n \<noteq> R" for n
  proof (cases "n = r")
    case True
    with that same show ?thesis by simp
  next
    case False
    from r1 r2 at [OF that] False show ?thesis by (rule backup_repository_agree_other)
  qed
  have recs': "filter (\<lambda>i. name i \<noteq> R) (repositories (backup_log u2) @ [i2]) =
      filter (\<lambda>i. name i \<noteq> R) (repositories (backup_log u1) @ [i1])"
  proof (cases "r = R")
    case True
    with f1 f2 recs show ?thesis by simp
  next
    case False
    with same f1 f2 recs show ?thesis by simp
  qed
  have ao: "agree_off R (append_record u1 i1) (append_record u2 i2)"
    using other recs' f1 f2 bd2 ts2
    by (simp add: agree_off_def append_record_def agree_at_def)
  have b1: "backup_dir (append_record u1 i1) = bd" "timestamp (append_record u1 i1) = ts"
    using bdu Cons.prems(1,2) by (simp_all add: append_record_def)
  from Cons.IH [OF b1 ao l1 l2] show ?case .
qed

lemma mkdir_total: "mkdir_fault e p = None \<Longrightarrow> \<exists>s0. mkdir e s p = Inr s0"
  by (simp add: mkdir_def split: option.split)

lemma backup_loop_total:
  "(\<And>n. n \<in> set repos \<Longrightarrow> mkdir_fault e (backup_dir s @ ''/temp/'' @ n) = None) \<Longrightarrow>
   \<exists>s'. backup_loop e s repos = Inr s'"
proof (induction repos arbitrary: s)
  case Nil
  show ?case by simp
next
  case (Cons r rs)
  from Cons.prems [of r] obtain s0 where "mkdir e s (backup_dir s @ ''/temp/'' @ r) = Inr s0"
    using mkdir_total by (metis list.set_intros(1))
  from backup_repository_total [OF this] obtain info s1 where
    run: "backup_repository e s r = Inr (info, s1)" by (elim exE)
  have bd: "backup_dir (append_record s1 info) = backup_dir s"
    using backup_repository_frame [OF run] by (simp add: append_record_def)
  have "\<exists>s'. backup_loop e (append_record s1 info) rs = Inr s'"
    by (rule Cons.IH) (unfold bd, rule Cons.prems, simp)
  then show ?case by (simp add: run)
qed

lemma backup_all_repositories_Inr:
  assumes "backup_all_repositories e s = Inr (lg, t)"
  obtains repos s1 u where "get_all_repositories e s = (repos, s1)"
    and "backup_loop e s1 repos = Inr u"
    and "repositories lg = repositories (backup_log u)"
    and "store t = store u" and "workspaces t = workspaces u"
proof -
  obtain repos s1 where g: "get_all_repositories e s = (repos, s1)"
    by (cases "get_all_repositories e s")
  from assms g obtain u where l: "backup_loop e s1 repos = Inr u"
    by (simp add: backup_all_repositories_def split: sum.splits)
  let ?k = "int (length (filter (\<lambda>r. status r = ''success'') (repositories (backup_log u))))"
  let ?L = "(backup_log u)
      \<lparr>log_status := (if ?k = int (length repos) then ''completed'' else ''partial''),
       summary := Some \<lparr>total = int (length repos), success = ?k,
          failed = int (length repos) - ?k\<rparr>\<rparr>"
  have A: "backup_all_repositories e s = Inr (?L, u\<lparr>backup_log := ?L\<rparr>)"
    by (simp add: backup_all_repositories_def Let_def g l)
  from trans [OF assms [symmetric] A] have both: "lg = ?L \<and> t = u\<lparr>backup_log := ?L\<rparr>"
    by (simp only: sum.inject prod.inject)
  from both have lg: "lg = ?L" ..
  from both have t: "t = u\<lparr>backup_log := ?L\<rparr>" ..
  have "repositories lg = repositories (backup_log u)" "store t = store u" "workspaces t = workspaces u"
    unfolding lg t by simp_all
  with g l show ?thesis by (rule that)
qed

lemma record_invariant_mono:
  "record_invariant s info \<Longrightarrow> (\<And>q. exists s q \<Longrightarrow> exists t q) \<Longrightarrow> record_invariant t info"
  by (auto simp: record_invariant_def split: option.splits)

lemma record_invariant_store:
  "store t = store s \<Longrightarrow> record_invariant t = record_invariant s"
  by (rule ext) (simp add: record_invariant_def exists_def cong: option.case_cong)

lemma backup_repository_record_invariant:
  "backup_repository e s R = Inr (info, s') \<Longrightarrow> record_invariant s' info"
  using backup_repository_success [of e s R info s']
  by (auto simp: record_invariant_def)

lemma backup_loop_record_invariant:
  "backup_loop e s repos = Inr s' \<Longrightarrow> list_all (record_invariant s) (repositories (backup_log s)) \<Longrightarrow>
   list_all (record_invariant s') (repositories (backup_log s'))"
proof (induction repos arbitrary: s)
  case Nil
  then show ?case by simp
next
  case (Cons r rs)
  from Cons.prems(1) obtain info s1 where
    run: "backup_repository e s r = Inr (info, s1)" and
    rest: "backup_loop e (append_record s1 info) rs = Inr s'"
    by (auto split: sum.splits)
  have ex: "exists s q \<Longrightarrow> exists (append_record s1 info) q" for q
    using backup_repository_other_paths(3) [OF run] by (simp add: append_record_def exists_def)
  have ex1: "exists s1 q \<Longrightarrow> exists (append_record s1 info) q" for q
    by (simp add: append_record_def exists_def)
  have old: "list_all (record_invariant (append_record s1 info)) (repositories (backup_log s))"
    using Cons.prems(2) by (auto simp: list_all_iff intro: record_invariant_mono ex)
  have new: "record_invariant (append_record s1 info) info"
    using backup_repository_record_invariant [OF run] ex1 by (rule record_invariant_mono)
  have "list_all (record_invariant (append_record s1 info))
      (repositories (backup_log (append_record s1 info)))"
    using old new backup_repository_frame [OF run] by (simp add: append_record_def)
  with rest show ?case by (rule Cons.IH)
qed

text \<open>
  \<^bold>\<open>C2\<close> (record success invariant). When \<open>backup_repository\<close> returns a record
  with status \<open>success\<close>, the checksum is present, \<open>archive_path\<close> is the path of the
  archive, the archive exists in the store with exactly \<open>size_bytes\<close> bytes, and
  \<open>size_bytes > 0\<close>. Over a whole run the invariant \<open>record_invariant\<close> (a successful
  record has a checksum, a positive size and an archive that exists on disk) holds of every
  record of the returned log, given that it held of the records the log started with (none,
  on a fresh \<open>BackupSystem\<close>).
\<close>

theorem record_success_invariant:
  "(backup_repository e s R = Inr (info, s1) \<and> status info = ''success'' \<longrightarrow>
      checksum info \<noteq> None \<and> 0 < size_bytes info \<and>
      archive_path info = Some (backup_dir s @ ''/'' @ R @ ''_'' @ timestamp s @ ''.tar.gz'') \<and>
      exists s1 (backup_dir s @ ''/'' @ R @ ''_'' @ timestamp s @ ''.tar.gz'') \<and>
      map_option st_size (map_of (store s1) (backup_dir s @ ''/'' @ R @ ''_'' @ timestamp s @ ''.tar.gz'')) =
        Some (size_bytes info)) \<and>
   (list_all (record_invariant s) (repositories (backup_log s)) \<and>
    backup_all_repositories e s = Inr (lg, s') \<longrightarrow>
      list_all (record_invariant s') (repositories lg))"
proof (intro conjI impI)
  assume "list_all (record_invariant s) (repositories (backup_log s)) \<and>
    backup_all_repositories e s = Inr (lg, s')"
  then have inv: "list_all (record_invariant s) (repositories (backup_log s))"
    and run: "backup_all_repositories e s = Inr (lg, s')" by simp_all
  from run obtain repos s1 u where g: "get_all_repositories e s = (repos, s1)"
    and l: "backup_loop e s1 repos = Inr u"
    and reps: "repositories lg = repositories (backup_log u)"
    and st: "store s' = store u"
    by (rule backup_all_repositories_Inr)
  note f = get_all_repositories_frame [OF g]
  have "list_all (record_invariant s1) (repositories (backup_log s1))"
    using inv f by (simp add: record_invariant_store [of s1 s])
  from backup_loop_record_invariant [OF l this]
  show "list_all (record_invariant s') (repositories lg)"
    by (simp add: reps record_invariant_store [OF st])
qed (use backup_repository_success [of e s R info s1] in simp_all)

lemmas eval_defs2 = eval_defs env_archive_raises_def env_archive_missing_def env_copy_fails_def
  env_push_fails_def sys_published_def

lemma repository_alpha_ok:
  "(case backup_repository env_ok sys0 ''alpha'' of
      Inl msg \<Rightarrow> False
    | Inr (info, s1) \<Rightarrow>
        status info = ''success'' \<and> size_bytes info = 120 \<and>
        archive_path info = Some ''/b/alpha_20240101_000000.tar.gz'' \<and>
        workspaces s1 ''/b/temp/alpha'' = None)"
  by (simp add: eval_defs2)

lemma run_ok:
  "(case backup_all_repositories env_ok sys0 of
      Inl msg \<Rightarrow> False
    | Inr (lg, s') \<Rightarrow> map status (repositories lg) = [''success'', ''success''])"
  by (simp add: eval_defs2)

theorem record_success_invariant_witness:
  "(\<exists>info s1. backup_repository env_ok sys0 ''alpha'' = Inr (info, s1) \<and>
      status info = ''success'' \<and> checksum info \<noteq> None \<and> size_bytes info = 120 \<and>
      archive_path info = Some ''/b/alpha_20240101_000000.tar.gz'' \<and>
      exists s1 ''/b/alpha_20240101_000000.tar.gz'') \<and>
   list_all (record_invariant sys0) (repositories (backup_log sys0)) \<and>
   (\<exists>lg s'. backup_all_repositories env_ok sys0 = Inr (lg, s') \<and>
      map status (repositories lg) = [''success'', ''success''] \<and>
      list_all (record_invariant s') (repositories lg))"
proof -
  obtain info s1 where r: "backup_repository env_ok sys0 ''alpha'' = Inr (info, s1)"
    using repository_alpha_ok by (cases "backup_repository env_ok sys0 ''alpha''") auto
  have v: "status info = ''success''" "size_bytes info = 120"
    using repository_alpha_ok by (simp_all add: r)
  obtain lg s' where run: "backup_all_repositories env_ok sys0 = Inr (lg, s')"
    using run_ok by (cases "backup_all_repositories env_ok sys0") auto
  have st: "map status (repositories lg) = [''success'', ''success'']"
    using run_ok by (simp add: run)
  have inv: "list_all (record_invariant sys0) (repositories (backup_log sys0))"
    by (simp add: sys0_def BackupSystem_init_def)
  have bd: "backup_dir sys0 @ ''/'' @ ''alpha'' @ ''_'' @ timestamp sys0 @ ''.tar.gz'' =
      ''/b/alpha_20240101_000000.tar.gz''"
    by (simp add: sys0_def BackupSystem_init_def)
  note t = record_success_invariant [of env_ok sys0 "''alpha''" info s1 lg s']
  have p1: "checksum info \<noteq> None \<and> archive_path info = Some ''/b/alpha_20240101_000000.tar.gz'' \<and>
      exists s1 ''/b/alpha_20240101_000000.tar.gz''"
    using t r v(1) unfolding bd by simp
  have p2: "list_all (record_invariant s') (repositories lg)"
    using t inv run by simp
  show ?thesis
    using r v p1 inv run st p2 by (intro conjI exI) (assumption | simp)+
qed

lemma verify_archive_after_stat:
  "py_stat s2 p = Inr st \<Longrightarrow> verify_archive s2 p = Inr (0 < st_size st)"
  by (auto simp: verify_archive_def exists_def py_stat_def split: option.splits)

lemma backup_repository_verify_fails:
  assumes mk: "mkdir e s (backup_dir s @ ''/temp/'' @ R) = Inr s0"
    and cl: "clone_repository e s0 R (backup_dir s @ ''/temp/'' @ R) = (True, s1)"
    and ar: "create_archive e s1 (backup_dir s @ ''/temp/'' @ R) R = Inr (p, s2)"
    and st: "py_stat s2 p = Inr st" and vf: "verify_archive s2 p \<noteq> Inr True"
  shows "\<exists>info s'. backup_repository e s R = Inr (info, s') \<and>
      status info = ''failed'' \<and> size_bytes info = 0 \<and>
      checksum info = Some (checksum_of s1 (backup_dir s @ ''/temp/'' @ R)) \<and>
      archive_path info = Some p"
proof -
  from vf verify_archive_after_stat [OF st] have z: "st_size st = 0" by simp
  note r = backup_repository_empty_archive [OF mk cl ar st z]
  show ?thesis
  proof (cases "rmtree e s2 (backup_dir s @ ''/temp/'' @ R)")
    case (Inl msg)
    with r show ?thesis by simp
  next
    case (Inr s3)
    with r show ?thesis by simp
  qed
qed

text \<open>
  \<^bold>\<open>C4\<close> (what a failed record holds), as amended. The failures are those of the
  clone, of the archiver, of the size read and of the verification. In each case the record
  is \<open>failed\<close> with \<open>size_bytes = 0\<close>. When the clone fails, the record is the initial
  one: no checksum, no archive path. When the archiver raises, the checksum computed from the
  workspace is in the record and the archive path is absent. When the size read raises, or
  the verification does not pass, the checksum and the archive path are both in the record:
  the fields are filled in as the steps run and are not reset on failure.
\<close>

theorem failed_record_fields:
  "(mkdir e s (backup_dir s @ ''/temp/'' @ R) = Inr s0 \<and>
    clone_repository e s0 R (backup_dir s @ ''/temp/'' @ R) = (False, s1) \<longrightarrow>
      backup_repository e s R =
        Inr (\<lparr>name = R, info_timestamp = timestamp s, status = ''failed'', checksum = None,
              size_bytes = 0, archive_path = None, error = None\<rparr>, s1)) \<and>
   (mkdir e s (backup_dir s @ ''/temp/'' @ R) = Inr s0 \<and>
    clone_repository e s0 R (backup_dir s @ ''/temp/'' @ R) = (True, s1) \<and>
    create_archive e s1 (backup_dir s @ ''/temp/'' @ R) R = Inl msg \<longrightarrow>
      backup_repository e s R =
        Inr (\<lparr>name = R, info_timestamp = timestamp s, status = ''failed'',
              checksum = Some (checksum_of s1 (backup_dir s @ ''/temp/'' @ R)),
              size_bytes = 0, archive_path = None, error = Some msg\<rparr>,
             add_error s1 (''Backup failed for '' @ R @ '': '' @ msg))) \<and>
   (mkdir e s (backup_dir s @ ''/temp/'' @ R) = Inr s0 \<and>
    clone_repository e s0 R (backup_dir s @ ''/temp/'' @ R) = (True, s1) \<and>
    create_archive e s1 (backup_dir s @ ''/temp/'' @ R) R = Inr (p, s2) \<and>
    py_stat s2 p = Inl msg \<longrightarrow>
      backup_repository e s R =
        Inr (\<lparr>name = R, info_timestamp = timestamp s, status = ''failed'',
              checksum = Some (checksum_of s1 (backup_dir s @ ''/temp/'' @ R)),
              size_bytes = 0, archive_path = Some p, error = Some msg\<rparr>,
             add_error s2 (''Backup failed for '' @ R @ '': '' @ msg))) \<and>
   (mkdir e s (backup_dir s @ ''/temp/'' @ R) = Inr s0 \<and>
    clone_repository e s0 R (backup_dir s @ ''/temp/'' @ R) = (True, s1) \<and>
    create_archive e s1 (backup_dir s @ ''/temp/'' @ R) R = Inr (p, s2) \<and>
    py_stat s2 p = Inr st \<and> verify_archive s2 p \<noteq> Inr True \<longrightarrow>
      (\<exists>info s'. backup_repository e s R = Inr (info, s') \<and>
         status info = ''failed'' \<and> size_bytes info = 0 \<and>
         checksum info = Some (checksum_of s1 (backup_dir s @ ''/temp/'' @ R)) \<and>
         archive_path info = Some p))"
proof (intro conjI impI)
  assume "mkdir e s (backup_dir s @ ''/temp/'' @ R) = Inr s0 \<and>
    clone_repository e s0 R (backup_dir s @ ''/temp/'' @ R) = (False, s1)"
  then show "backup_repository e s R =
        Inr (\<lparr>name = R, info_timestamp = timestamp s, status = ''failed'', checksum = None,
              size_bytes = 0, archive_path = None, error = None\<rparr>, s1)"
    using backup_repository_clone_fails [of e s R s0 s1] by simp
next
  assume "mkdir e s (backup_dir s @ ''/temp/'' @ R) = Inr s0 \<and>
    clone_repository e s0 R (backup_dir s @ ''/temp/'' @ R) = (True, s1) \<and>
    create_archive e s1 (backup_dir s @ ''/temp/'' @ R) R = Inl msg"
  then show "backup_repository e s R =
        Inr (\<lparr>name = R, info_timestamp = timestamp s, status = ''failed'',
              checksum = Some (checksum_of s1 (backup_dir s @ ''/temp/'' @ R)),
              size_bytes = 0, archive_path = None, error = Some msg\<rparr>,
             add_error s1 (''Backup failed for '' @ R @ '': '' @ msg))"
    using backup_repository_archive_raises [of e s R s0 s1 msg] by simp
next
  assume "mkdir e s (backup_dir s @ ''/temp/'' @ R) = Inr s0 \<and>
    clone_repository e s0 R (backup_dir s @ ''/temp/'' @ R) = (True, s1) \<and>
    create_archive e s1 (backup_dir s @ ''/temp/'' @ R) R = Inr (p, s2) \<and>
    py_stat s2 p = Inl msg"
  then show "backup_repository e s R =
        Inr (\<lparr>name = R, info_timestamp = timestamp s, status = ''failed'',
              checksum = Some (checksum_of s1 (backup_dir s @ ''/temp/'' @ R)),
              size_bytes = 0, archive_path = Some p, error = Some msg\<rparr>,
             add_error s2 (''Backup failed for '' @ R @ '': '' @ msg))"
    using backup_repository_stat_raises [of e s R s0 s1 p s2 msg] by simp
next
  assume "mkdir e s (backup_dir s @ ''/temp/'' @ R) = Inr s0 \<and>
    clone_repository e s0 R (backup_dir s @ ''/temp/'' @ R) = (True, s1) \<and>
    create_archive e s1 (backup_dir s @ ''/temp/'' @ R) R = Inr (p, s2) \<and>
    py_stat s2 p = Inr st \<and> verify_archive s2 p \<noteq> Inr True"
  then show "\<exists>info s'. backup_repository e s R = Inr (info, s') \<and>
         status info = ''failed'' \<and> size_bytes info = 0 \<and>
         checksum info = Some (checksum_of s1 (backup_dir s @ ''/temp/'' @ R)) \<and>
         archive_path info = Some p"
    using backup_repository_verify_fails [of e s R s0 s1 p s2 st] by simp
qed

text \<open>
  The claim as first stated asks for an absent checksum and archive path in every failed
  record. An archive of size 0 fails verification after the checksum and the path were stored.
\<close>

theorem failed_record_fields_counterexample:
  "map_sum id (status \<circ> fst) (backup_repository env_empty_archive sys0 ''alpha'') = Inr ''failed'' \<and>
   map_sum id (checksum \<circ> fst) (backup_repository env_empty_archive sys0 ''alpha'') =
     Inr (Some (calculate_checksum (Dir [(''README'', File (Some [0x68, 0x69]))]))) \<and>
   map_sum id (archive_path \<circ> fst) (backup_repository env_empty_archive sys0 ''alpha'') =
     Inr (Some ''/b/alpha_20240101_000000.tar.gz'')"
  by (simp add: eval_defs)

lemma alpha_steps:
  "mkdir env_empty_archive sys0 (backup_dir sys0 @ ''/temp/'' @ ''alpha'') = Inr sys0_alpha_dir"
  "clone_repository env_empty_archive sys0_alpha_dir ''alpha'' (backup_dir sys0 @ ''/temp/'' @ ''alpha'') =
     (True, sys0_alpha_cloned)"
  "create_archive env_empty_archive sys0_alpha_cloned (backup_dir sys0 @ ''/temp/'' @ ''alpha'') ''alpha'' =
     Inr (''/b/alpha_20240101_000000.tar.gz'', sys0_alpha_archived)"
  by (simp_all add: eval_defs sys0_alpha_dir_def sys0_alpha_cloned_def sys0_alpha_archived_def)

lemma beta_steps:
  "mkdir env_beta_clone_fails sys0 (backup_dir sys0 @ ''/temp/'' @ ''beta'') = Inr sys0_beta_dir"
  "fst (clone_repository env_beta_clone_fails sys0_beta_dir ''beta'' (backup_dir sys0 @ ''/temp/'' @ ''beta'')) = False"
  by (simp_all add: eval_defs sys0_beta_dir_def)

lemma get_all_repositories_replace_repo:
  "get_all_repositories (replace_repo R s0 e e') s = get_all_repositories e s"
  by (simp add: get_all_repositories_def replace_repo_def)

lemma agree_off_refl: "agree_off R s s"
  by (simp add: agree_off_def agree_at_def)

lemma backup_all_repositories_total:
  assumes "\<And>n. n \<in> set (fst (get_all_repositories e s)) \<Longrightarrow>
      mkdir_fault e (backup_dir s @ ''/temp/'' @ n) = None"
  shows "\<exists>lg t. backup_all_repositories e s = Inr (lg, t) \<and>
      (\<exists>new. repositories lg = repositories (backup_log s) @ new \<and>
         map name new = fst (get_all_repositories e s))"
proof -
  obtain repos s1 where g: "get_all_repositories e s = (repos, s1)"
    by (cases "get_all_repositories e s")
  note f = get_all_repositories_frame [OF g]
  have "\<exists>u. backup_loop e s1 repos = Inr u"
  proof (rule backup_loop_total)
    fix n assume "n \<in> set repos"
    then show "mkdir_fault e (backup_dir s1 @ ''/temp/'' @ n) = None"
      using assms [of n] f g by simp
  qed
  then obtain u where l: "backup_loop e s1 repos = Inr u" ..
  from backup_loop_records [OF l] obtain new where
    new: "repositories (backup_log u) = repositories (backup_log s1) @ new" "map name new = repos"
    by (elim exE conjE)
  let ?k = "int (length (filter (\<lambda>r. status r = ''success'') (repositories (backup_log u))))"
  let ?L = "(backup_log u)
      \<lparr>log_status := (if ?k = int (length repos) then ''completed'' else ''partial''),
       summary := Some \<lparr>total = int (length repos), success = ?k,
          failed = int (length repos) - ?k\<rparr>\<rparr>"
  have A: "backup_all_repositories e s = Inr (?L, u\<lparr>backup_log := ?L\<rparr>)"
    by (simp add: backup_all_repositories_def Let_def g l)
  have B: "repositories ?L = repositories (backup_log s) @ new \<and> map name new = fst (get_all_repositories e s)"
    using new f g by simp
  from A B show ?thesis by (intro exI conjI) (assumption | simp)+
qed

lemma backup_all_repositories_isolated:
  assumes r1: "backup_all_repositories e s = Inr (lg, t)"
    and r2: "backup_all_repositories (replace_repo R s e e') s = Inr (lg', t')"
  shows "filter (\<lambda>i. name i \<noteq> R) (repositories lg') = filter (\<lambda>i. name i \<noteq> R) (repositories lg)"
proof -
  from r1 obtain repos s1 u where g: "get_all_repositories e s = (repos, s1)"
    and l: "backup_loop e s1 repos = Inr u"
    and reps: "repositories lg = repositories (backup_log u)"
    by (rule backup_all_repositories_Inr)
  from r2 obtain repos' s1' u' where g': "get_all_repositories (replace_repo R s e e') s = (repos', s1')"
    and l': "backup_loop (replace_repo R s e e') s1' repos' = Inr u'"
    and reps': "repositories lg' = repositories (backup_log u')"
    by (rule backup_all_repositories_Inr)
  from g g' have same: "repos' = repos" "s1' = s1"
    by (simp_all add: get_all_repositories_replace_repo)
  note f = get_all_repositories_frame [OF g]
  have "agree_off R u u'"
  proof (rule backup_loop_agree_off [where ?e1.0 = e and ?e2.0 = "replace_repo R s e e'"
        and bd = "backup_dir s" and ts = "timestamp s" and ?s1.0 = s1 and ?s2.0 = s1 and repos = repos])
    show "backup_dir s1 = backup_dir s" "timestamp s1 = timestamp s"
      using f by simp_all
    show "agree_off R s1 s1" by (rule agree_off_refl)
    show "backup_loop e s1 repos = Inr u" by (rule l)
    show "backup_loop (replace_repo R s e e') s1 repos = Inr u'"
      using l' same by simp
  next
    fix n assume "n \<noteq> R"
    then show "gh_repo_clone (replace_repo R s e e') n = gh_repo_clone e n \<and>
      mkdir_fault (replace_repo R s e e') (backup_dir s @ ''/temp/'' @ n) =
        mkdir_fault e (backup_dir s @ ''/temp/'' @ n) \<and>
      rmtree_fault (replace_repo R s e e') (backup_dir s @ ''/temp/'' @ n) =
        rmtree_fault e (backup_dir s @ ''/temp/'' @ n) \<and>
      make_archive (replace_repo R s e e') (backup_dir s @ ''/'' @ n @ ''_'' @ timestamp s) =
        make_archive e (backup_dir s @ ''/'' @ n @ ''_'' @ timestamp s)"
      by (simp add: replace_repo_def)
  qed
  then show ?thesis
    by (simp add: agree_off_def reps reps')
qed

lemma backup_repository_step_failures:
  assumes mk: "mkdir e s (backup_dir s @ ''/temp/'' @ R) = Inr s0"
  shows "\<exists>info s'. backup_repository e s R = Inr (info, s') \<and> name info = R \<and>
    (clone_repository e s0 R (backup_dir s @ ''/temp/'' @ R) = (False, s1) \<longrightarrow>
       status info = ''failed'' \<and>
       (\<exists>msg. errors (backup_log s') = errors (backup_log s) @ [''Failed to clone '' @ R @ '': '' @ msg])) \<and>
    (clone_repository e s0 R (backup_dir s @ ''/temp/'' @ R) = (True, s1) \<and>
     create_archive e s1 (backup_dir s @ ''/temp/'' @ R) R = Inl msg \<longrightarrow>
       status info = ''failed'' \<and>
       errors (backup_log s') = errors (backup_log s) @ [''Backup failed for '' @ R @ '': '' @ msg]) \<and>
    (clone_repository e s0 R (backup_dir s @ ''/temp/'' @ R) = (True, s1) \<and>
     create_archive e s1 (backup_dir s @ ''/temp/'' @ R) R = Inr (p, s2) \<and> py_stat s2 p = Inl msg \<longrightarrow>
       status info = ''failed'' \<and>
       errors (backup_log s') = errors (backup_log s) @ [''Backup failed for '' @ R @ '': '' @ msg]) \<and>
    (clone_repository e s0 R (backup_dir s @ ''/temp/'' @ R) = (True, s1) \<and>
     create_archive e s1 (backup_dir s @ ''/temp/'' @ R) R = Inr (p, s2) \<and>
     py_stat s2 p = Inr st \<and> st_size st = 0 \<longrightarrow>
       status info = ''failed'' \<and>
       (rmtree_fault e (backup_dir s @ ''/temp/'' @ R) = None \<longrightarrow>
          errors (backup_log s') = errors (backup_log s)) \<and>
       (rmtree_fault e (backup_dir s @ ''/temp/'' @ R) = Some msg \<longrightarrow>
          errors (backup_log s') = errors (backup_log s) @ [''Backup failed for '' @ R @ '': '' @ msg]))"
proof -
  from backup_repository_total [OF mk] obtain info s' where
    run: "backup_repository e s R = Inr (info, s')" by (elim exE)
  note e0 = mkdir_errors [OF mk]
  have nm: "name info = R"
    using backup_repository_frame [OF run] by simp
  have c1: "status info = ''failed'' \<and>
       (\<exists>msg. errors (backup_log s') = errors (backup_log s) @ [''Failed to clone '' @ R @ '': '' @ msg])"
    if cl: "clone_repository e s0 R (backup_dir s @ ''/temp/'' @ R) = (False, s1)"
  proof -
    from backup_repository_clone_fails [OF mk cl] run
    have "status info = ''failed''" and "s' = s1" by auto
    with clone_repository_False [OF cl] e0 show ?thesis by simp
  qed
  have c2: "status info = ''failed'' \<and>
       errors (backup_log s') = errors (backup_log s) @ [''Backup failed for '' @ R @ '': '' @ msg]"
    if cl: "clone_repository e s0 R (backup_dir s @ ''/temp/'' @ R) = (True, s1)"
      and ar: "create_archive e s1 (backup_dir s @ ''/temp/'' @ R) R = Inl msg"
  proof -
    from backup_repository_archive_raises [OF mk cl ar] run
    have "status info = ''failed''"
      and "s' = add_error s1 (''Backup failed for '' @ R @ '': '' @ msg)" by auto
    with clone_repository_True [OF cl] e0 show ?thesis by (simp add: add_error_def)
  qed
  have c3: "status info = ''failed'' \<and>
       errors (backup_log s') = errors (backup_log s) @ [''Backup failed for '' @ R @ '': '' @ msg]"
    if cl: "clone_repository e s0 R (backup_dir s @ ''/temp/'' @ R) = (True, s1)"
      and ar: "create_archive e s1 (backup_dir s @ ''/temp/'' @ R) R = Inr (p, s2)"
      and st: "py_stat s2 p = Inl msg"
  proof -
    from backup_repository_stat_raises [OF mk cl ar st] run
    have "status info = ''failed''"
      and "s' = add_error s2 (''Backup failed for '' @ R @ '': '' @ msg)" by auto
    with clone_repository_True [OF cl] create_archive_errors [OF ar] e0
    show ?thesis by (simp add: add_error_def)
  qed
  have c4: "status info = ''failed'' \<and>
       (rmtree_fault e (backup_dir s @ ''/temp/'' @ R) = None \<longrightarrow>
          errors (backup_log s') = errors (backup_log s)) \<and>
       (rmtree_fault e (backup_dir s @ ''/temp/'' @ R) = Some msg \<longrightarrow>
          errors (backup_log s') = errors (backup_log s) @ [''Backup failed for '' @ R @ '': '' @ msg])"
    if cl: "clone_repository e s0 R (backup_dir s @ ''/temp/'' @ R) = (True, s1)"
      and ar: "create_archive e s1 (backup_dir s @ ''/temp/'' @ R) R = Inr (p, s2)"
      and st: "py_stat s2 p = Inr st" and z: "st_size st = 0"
  proof -
    note r = backup_repository_empty_archive [OF mk cl ar st z]
    note e2 = create_archive_errors [OF ar] clone_repository_True [OF cl] e0
    show ?thesis
    proof (cases "rmtree_fault e (backup_dir s @ ''/temp/'' @ R)")
      case None
      with r run e2 show ?thesis
        by (auto simp: rmtree_def)
    next
      case (Some m)
      with r run e2 show ?thesis
        by (auto simp: rmtree_def add_error_def)
    qed
  qed
  show ?thesis
    using run nm c1 c2 c3 c4 by (intro exI [of _ info] exI [of _ s'] conjI impI) (assumption | simp)+
qed

text \<open>
  \<^bold>\<open>C1\<close> (per-repository failure isolation), as amended. Once the workspace of \<open>R\<close>
  is allocated, \<open>backup_repository\<close> returns a record named \<open>R\<close>; no fault of the clone,
  the archiver, the verification or the release leaves it. A failed clone gives a \<open>failed\<close>
  record and one diagnostic \<open>Failed to clone R: ...\<close>; a fault raised by the archiver or by
  the size read gives a \<open>failed\<close> record and one diagnostic \<open>Backup failed for R: ...\<close>.
  An archive that is produced with size 0 gives a \<open>failed\<close> record with no diagnostic
  (unless the release of the workspace then raises). The records of the other repositories
  do not depend on what happens to \<open>R\<close>: replacing every outcome of \<open>R\<close> by those of
  another environment (\<open>replace_repo\<close>) leaves them the same. When no workspace allocation
  raises, the run returns with one record per discovered repository, in order.
\<close>

theorem failure_isolation:
  "(mkdir e s (backup_dir s @ ''/temp/'' @ R) = Inr s0 \<longrightarrow>
     (\<exists>info s'. backup_repository e s R = Inr (info, s') \<and> name info = R \<and>
    (clone_repository e s0 R (backup_dir s @ ''/temp/'' @ R) = (False, s1) \<longrightarrow>
       status info = ''failed'' \<and>
       (\<exists>msg. errors (backup_log s') = errors (backup_log s) @ [''Failed to clone '' @ R @ '': '' @ msg])) \<and>
    (clone_repository e s0 R (backup_dir s @ ''/temp/'' @ R) = (True, s1) \<and>
     create_archive e s1 (backup_dir s @ ''/temp/'' @ R) R = Inl msg \<longrightarrow>
       status info = ''failed'' \<and>
       errors (backup_log s') = errors (backup_log s) @ [''Backup failed for '' @ R @ '': '' @ msg]) \<and>
    (clone_repository e s0 R (backup_dir s @ ''/temp/'' @ R) = (True, s1) \<and>
     create_archive e s1 (backup_dir s @ ''/temp/'' @ R) R = Inr (p, s2) \<and> py_stat s2 p = Inl msg \<longrightarrow>
       status info = ''failed'' \<and>
       errors (backup_log s') = errors (backup_log s) @ [''Backup failed for '' @ R @ '': '' @ msg]) \<and>
    (clone_repository e s0 R (backup_dir s @ ''/temp/'' @ R) = (True, s1) \<and>
     create_archive e s1 (backup_dir s @ ''/temp/'' @ R) R = Inr (p, s2) \<and>
     py_stat s2 p = Inr st \<and> st_size st = 0 \<longrightarrow>
       status info = ''failed'' \<and>
       (rmtree_fault e (backup_dir s @ ''/temp/'' @ R) = None \<longrightarrow>
          errors (backup_log s') = errors (backup_log s)) \<and>
       (rmtree_fault e (backup_dir s @ ''/temp/'' @ R) = Some msg \<longrightarrow>
          errors (backup_log s') = errors (backup_log s) @ [''Backup failed for '' @ R @ '': '' @ msg])))) \<and>
   (backup_all_repositories e s = Inr (lg, t) \<and>
    backup_all_repositories (replace_repo R s e e') s = Inr (lg', t') \<longrightarrow>
      filter (\<lambda>i. name i \<noteq> R) (repositories lg') = filter (\<lambda>i. name i \<noteq> R) (repositories lg)) \<and>
   ((\<forall>n \<in> set (fst (get_all_repositories e s)). mkdir_fault e (backup_dir s @ ''/temp/'' @ n) = None) \<longrightarrow>
      (\<exists>lg t. backup_all_repositories e s = Inr (lg, t) \<and>
         (\<exists>new. repositories lg = repositories (backup_log s) @ new \<and>
            map name new = fst (get_all_repositories e s))))"
proof (intro conjI impI)
  assume "mkdir e s (backup_dir s @ ''/temp/'' @ R) = Inr s0"
  then show "\<exists>info s'. backup_repository e s R = Inr (info, s') \<and> name info = R \<and>
    (clone_repository e s0 R (backup_dir s @ ''/temp/'' @ R) = (False, s1) \<longrightarrow>
       status info = ''failed'' \<and>
       (\<exists>msg. errors (backup_log s') = errors (backup_log s) @ [''Failed to clone '' @ R @ '': '' @ msg])) \<and>
    (clone_repository e s0 R (backup_dir s @ ''/temp/'' @ R) = (True, s1) \<and>
     create_archive e s1 (backup_dir s @ ''/temp/'' @ R) R = Inl msg \<longrightarrow>
       status info = ''failed'' \<and>
       errors (backup_log s') = errors (backup_log s) @ [''Backup failed for '' @ R @ '': '' @ msg]) \<and>
    (clone_repository e s0 R (backup_dir s @ ''/temp/'' @ R) = (True, s1) \<and>
     create_archive e s1 (backup_dir s @ ''/temp/'' @ R) R = Inr (p, s2) \<and> py_stat s2 p = Inl msg \<longrightarrow>
       status info = ''failed'' \<and>
       errors (backup_log s') = errors (backup_log s) @ [''Backup failed for '' @ R @ '': '' @ msg]) \<and>
    (clone_repository e s0 R (backup_dir s @ ''/temp/'' @ R) = (True, s1) \<and>
     create_archive e s1 (backup_dir s @ ''/temp/'' @ R) R = Inr (p, s2) \<and>
     py_stat s2 p = Inr st \<and> st_size st = 0 \<longrightarrow>
       status info = ''failed'' \<and>
       (rmtree_fault e (backup_dir s @ ''/temp/'' @ R) = None \<longrightarrow>
          errors (backup_log s') = errors (backup_log s)) \<and>
       (rmtree_fault e (backup_dir s @ ''/temp/'' @ R) = Some msg \<longrightarrow>
          errors (backup_log s') = errors (backup_log s) @ [''Backup failed for '' @ R @ '': '' @ msg]))"
    by (rule backup_repository_step_failures)
next
  assume "backup_all_repositories e s = Inr (lg, t) \<and>
    backup_all_repositories (replace_repo R s e e') s = Inr (lg', t')"
  then have r1: "backup_all_repositories e s = Inr (lg, t)"
    and r2: "backup_all_repositories (replace_repo R s e e') s = Inr (lg', t')" by simp_all
  from r1 r2 show "filter (\<lambda>i. name i \<noteq> R) (repositories lg') = filter (\<lambda>i. name i \<noteq> R) (repositories lg)"
    by (rule backup_all_repositories_isolated)
next
  assume a: "\<forall>n \<in> set (fst (get_all_repositories e s)). mkdir_fault e (backup_dir s @ ''/temp/'' @ n) = None"
  show "\<exists>lg t. backup_all_repositories e s = Inr (lg, t) \<and>
         (\<exists>new. repositories lg = repositories (backup_log s) @ new \<and>
            map name new = fst (get_all_repositories e s))"
    by (rule backup_all_repositories_total) (use a in blast)
qed

text \<open>
  The claim as first stated promises a diagnostic for every failed repository. An archive of
  size 0 fails verification without raising: the record is \<open>failed\<close> and \<open>errors\<close> stays
  empty.
\<close>

theorem failure_isolation_counterexample:
  "map_sum id (status \<circ> fst) (backup_repository env_empty_archive sys0 ''alpha'') = Inr ''failed'' \<and>
   map_sum id (errors \<circ> backup_log \<circ> snd) (backup_repository env_empty_archive sys0 ''alpha'') = Inr []"
  by (simp add: eval_defs)

lemma run_replaced_beta:
  "(case backup_all_repositories (replace_repo ''beta'' sys0 env_beta_clone_fails env_ok) sys0 of
      Inl msg \<Rightarrow> False
    | Inr (lg, s') \<Rightarrow> map status (repositories lg) = [''success'', ''success''])"
  by (simp add: eval_defs replace_repo_def)

lemma archive_raises_steps:
  "mkdir env_archive_raises sys0 (backup_dir sys0 @ ''/temp/'' @ ''alpha'') = Inr sys0_alpha_dir"
  "clone_repository env_archive_raises sys0_alpha_dir ''alpha'' (backup_dir sys0 @ ''/temp/'' @ ''alpha'') =
     (True, sys0_alpha_cloned)"
  "create_archive env_archive_raises sys0_alpha_cloned (backup_dir sys0 @ ''/temp/'' @ ''alpha'') ''alpha'' =
     Inl ''[Errno 28] No space left on device''"
  by (simp_all add: eval_defs2 sys0_alpha_dir_def sys0_alpha_cloned_def)

lemma archive_missing_steps:
  "mkdir env_archive_missing sys0 (backup_dir sys0 @ ''/temp/'' @ ''alpha'') = Inr sys0_alpha_dir"
  "clone_repository env_archive_missing sys0_alpha_dir ''alpha'' (backup_dir sys0 @ ''/temp/'' @ ''alpha'') =
     (True, sys0_alpha_cloned)"
  "create_archive env_archive_missing sys0_alpha_cloned (backup_dir sys0 @ ''/temp/'' @ ''alpha'') ''alpha'' =
     Inr (''/b/alpha_20240101_000000.tar.gz'', sys0_alpha_cloned)"
  "py_stat sys0_alpha_cloned ''/b/alpha_20240101_000000.tar.gz'' =
     Inl (''[Errno 2] No such file or directory: '' @ quoted ''/b/alpha_20240101_000000.tar.gz'')"
  by (simp_all add: eval_defs2 sys0_alpha_dir_def sys0_alpha_cloned_def)

lemma no_mkdir_faults_beta:
  "\<forall>n \<in> set (fst (get_all_repositories env_beta_clone_fails sys0)).
     mkdir_fault env_beta_clone_fails (backup_dir sys0 @ ''/temp/'' @ n) = None"
  by (simp add: eval_defs)

theorem failure_isolation_witness:
  "mkdir env_beta_clone_fails sys0 (backup_dir sys0 @ ''/temp/'' @ ''beta'') = Inr sys0_beta_dir \<and>
   fst (clone_repository env_beta_clone_fails sys0_beta_dir ''beta'' (backup_dir sys0 @ ''/temp/'' @ ''beta'')) = False \<and>
   (\<exists>info s'. backup_repository env_beta_clone_fails sys0 ''beta'' = Inr (info, s') \<and>
      name info = ''beta'' \<and> status info = ''failed'' \<and>
      (\<exists>msg. errors (backup_log s') = errors (backup_log sys0) @ [''Failed to clone '' @ ''beta'' @ '': '' @ msg])) \<and>
   mkdir env_empty_archive sys0 (backup_dir sys0 @ ''/temp/'' @ ''alpha'') = Inr sys0_alpha_dir \<and>
   clone_repository env_empty_archive sys0_alpha_dir ''alpha'' (backup_dir sys0 @ ''/temp/'' @ ''alpha'') =
     (True, sys0_alpha_cloned) \<and>
   create_archive env_empty_archive sys0_alpha_cloned (backup_dir sys0 @ ''/temp/'' @ ''alpha'') ''alpha'' =
     Inr (''/b/alpha_20240101_000000.tar.gz'', sys0_alpha_archived) \<and>
   py_stat sys0_alpha_archived ''/b/alpha_20240101_000000.tar.gz'' = Inr \<lparr>st_size = 0, st_mtime = 1000\<rparr> \<and>
   (\<exists>info s'. backup_repository env_empty_archive sys0 ''alpha'' = Inr (info, s') \<and>
      status info = ''failed'' \<and> errors (backup_log s') = errors (backup_log sys0)) \<and>
   create_archive env_archive_raises sys0_alpha_cloned (backup_dir sys0 @ ''/temp/'' @ ''alpha'') ''alpha'' =
     Inl ''[Errno 28] No space left on device'' \<and>
   (\<exists>info s'. backup_repository env_archive_raises sys0 ''alpha'' = Inr (info, s') \<and>
      status info = ''failed'' \<and>
      errors (backup_log s') = errors (backup_log sys0) @
        [''Backup failed for '' @ ''alpha'' @ '': '' @ ''[Errno 28] No space left on device'']) \<and>
   py_stat sys0_alpha_cloned ''/b/alpha_20240101_000000.tar.gz'' =
     Inl (''[Errno 2] No such file or directory: '' @ quoted ''/b/alpha_20240101_000000.tar.gz'') \<and>
   (\<exists>info s'. backup_repository env_archive_missing sys0 ''alpha'' = Inr (info, s') \<and>
      status info = ''failed'' \<and>
      errors (backup_log s') = errors (backup_log sys0) @
        [''Backup failed for '' @ ''alpha'' @ '': '' @
         ''[Errno 2] No such file or directory: '' @ quoted ''/b/alpha_20240101_000000.tar.gz'']) \<and>
   (\<exists>lg t lg' t'. backup_all_repositories env_beta_clone_fails sys0 = Inr (lg, t) \<and>
      map name (repositories lg) = [''alpha'', ''beta''] \<and>
      backup_all_repositories (replace_repo ''beta'' sys0 env_beta_clone_fails env_ok) sys0 = Inr (lg', t') \<and>
      map status (repositories lg) = [''success'', ''failed''] \<and>
      map status (repositories lg') = [''success'', ''success''] \<and>
      filter (\<lambda>i. name i \<noteq> ''beta'') (repositories lg') =
      filter (\<lambda>i. name i \<noteq> ''beta'') (repositories lg))"
proof -
  have mkb: "mkdir env_beta_clone_fails sys0 (backup_dir sys0 @ ''/temp/'' @ ''beta'') = Inr sys0_beta_dir"
    and clb0: "fst (clone_repository env_beta_clone_fails sys0_beta_dir ''beta''
        (backup_dir sys0 @ ''/temp/'' @ ''beta'')) = False"
    by (rule beta_steps)+
  obtain sb where clb: "clone_repository env_beta_clone_fails sys0_beta_dir ''beta''
        (backup_dir sys0 @ ''/temp/'' @ ''beta'') = (False, sb)"
    using clb0 by (cases "clone_repository env_beta_clone_fails sys0_beta_dir ''beta''
        (backup_dir sys0 @ ''/temp/'' @ ''beta'')") simp
  have mka: "mkdir env_empty_archive sys0 (backup_dir sys0 @ ''/temp/'' @ ''alpha'') = Inr sys0_alpha_dir"
    and cla: "clone_repository env_empty_archive sys0_alpha_dir ''alpha''
        (backup_dir sys0 @ ''/temp/'' @ ''alpha'') = (True, sys0_alpha_cloned)"
    and ara: "create_archive env_empty_archive sys0_alpha_cloned
        (backup_dir sys0 @ ''/temp/'' @ ''alpha'') ''alpha'' =
        Inr (''/b/alpha_20240101_000000.tar.gz'', sys0_alpha_archived)"
    by (rule alpha_steps)+
  have sta: "py_stat sys0_alpha_archived ''/b/alpha_20240101_000000.tar.gz'' =
      Inr \<lparr>st_size = 0, st_mtime = 1000\<rparr>"
    by (simp add: py_stat_def sys0_alpha_archived_def)
  have rma: "rmtree_fault env_empty_archive (backup_dir sys0 @ ''/temp/'' @ ''alpha'') = None"
    by (simp add: eval_defs)
  note tb = failure_isolation [where e = env_beta_clone_fails and s = sys0 and R = "''beta''"
      and ?s0.0 = sys0_beta_dir and ?s1.0 = sb and msg = "''none''" and p = "''none''"
      and ?s2.0 = sys0 and st = "\<lparr>st_size = 0, st_mtime = 0\<rparr>", THEN conjunct1, rule_format, OF mkb]
  from tb obtain ib tb' where
    b: "backup_repository env_beta_clone_fails sys0 ''beta'' = Inr (ib, tb')" "name ib = ''beta''"
      "clone_repository env_beta_clone_fails sys0_beta_dir ''beta''
        (backup_dir sys0 @ ''/temp/'' @ ''beta'') = (False, sb) \<longrightarrow>
       status ib = ''failed'' \<and>
       (\<exists>msg. errors (backup_log tb') = errors (backup_log sys0) @ [''Failed to clone '' @ ''beta'' @ '': '' @ msg])"
    by (elim exE conjE) (rule that)
  from b(3) clb have b3: "status ib = ''failed''"
    "\<exists>msg. errors (backup_log tb') = errors (backup_log sys0) @ [''Failed to clone '' @ ''beta'' @ '': '' @ msg]"
    by simp_all
  note ta = failure_isolation [where e = env_empty_archive and s = sys0 and R = "''alpha''"
      and ?s0.0 = sys0_alpha_dir and ?s1.0 = sys0_alpha_cloned and msg = "''none''"
      and p = "''/b/alpha_20240101_000000.tar.gz''" and ?s2.0 = sys0_alpha_archived
      and st = "\<lparr>st_size = 0, st_mtime = 1000\<rparr>", THEN conjunct1, rule_format, OF mka]
  from ta obtain ia ta' where
    a: "backup_repository env_empty_archive sys0 ''alpha'' = Inr (ia, ta')"
      "clone_repository env_empty_archive sys0_alpha_dir ''alpha''
          (backup_dir sys0 @ ''/temp/'' @ ''alpha'') = (True, sys0_alpha_cloned) \<and>
       create_archive env_empty_archive sys0_alpha_cloned (backup_dir sys0 @ ''/temp/'' @ ''alpha'') ''alpha'' =
          Inr (''/b/alpha_20240101_000000.tar.gz'', sys0_alpha_archived) \<and>
       py_stat sys0_alpha_archived ''/b/alpha_20240101_000000.tar.gz'' = Inr \<lparr>st_size = 0, st_mtime = 1000\<rparr> \<and>
       st_size \<lparr>st_size = 0, st_mtime = 1000\<rparr> = 0 \<longrightarrow>
       status ia = ''failed'' \<and>
       (rmtree_fault env_empty_archive (backup_dir sys0 @ ''/temp/'' @ ''alpha'') = None \<longrightarrow>
          errors (backup_log ta') = errors (backup_log sys0)) \<and>
       (rmtree_fault env_empty_archive (backup_dir sys0 @ ''/temp/'' @ ''alpha'') = Some ''none'' \<longrightarrow>
          errors (backup_log ta') = errors (backup_log sys0) @ [''Backup failed for '' @ ''alpha'' @ '': '' @ ''none''])"
    by (elim exE conjE) (rule that)
  from a(2) cla ara sta rma have a3: "status ia = ''failed''" "errors (backup_log ta') = errors (backup_log sys0)"
    by simp_all
  note tr = failure_isolation [where e = env_archive_raises and s = sys0 and R = "''alpha''"
      and ?s0.0 = sys0_alpha_dir and ?s1.0 = sys0_alpha_cloned
      and msg = "''[Errno 28] No space left on device''" and p = "''none''"
      and ?s2.0 = sys0 and st = "\<lparr>st_size = 0, st_mtime = 0\<rparr>",
      THEN conjunct1, rule_format, OF archive_raises_steps(1)]
  from tr obtain ir tr' where
    r: "backup_repository env_archive_raises sys0 ''alpha'' = Inr (ir, tr')"
      "clone_repository env_archive_raises sys0_alpha_dir ''alpha''
          (backup_dir sys0 @ ''/temp/'' @ ''alpha'') = (True, sys0_alpha_cloned) \<and>
       create_archive env_archive_raises sys0_alpha_cloned (backup_dir sys0 @ ''/temp/'' @ ''alpha'') ''alpha'' =
          Inl ''[Errno 28] No space left on device'' \<longrightarrow>
       status ir = ''failed'' \<and>
       errors (backup_log tr') = errors (backup_log sys0) @
         [''Backup failed for '' @ ''alpha'' @ '': '' @ ''[Errno 28] No space left on device'']"
    by (elim exE conjE) (rule that)
  from r(2) archive_raises_steps(2,3) have r3: "status ir = ''failed''"
    "errors (backup_log tr') = errors (backup_log sys0) @
       [''Backup failed for '' @ ''alpha'' @ '': '' @ ''[Errno 28] No space left on device'']"
    by simp_all
  note tm = failure_isolation [where e = env_archive_missing and s = sys0 and R = "''alpha''"
      and ?s0.0 = sys0_alpha_dir and ?s1.0 = sys0_alpha_cloned
      and msg = "''[Errno 2] No such file or directory: '' @ quoted ''/b/alpha_20240101_000000.tar.gz''"
      and p = "''/b/alpha_20240101_000000.tar.gz''"
      and ?s2.0 = sys0_alpha_cloned and st = "\<lparr>st_size = 0, st_mtime = 0\<rparr>",
      THEN conjunct1, rule_format, OF archive_missing_steps(1)]
  from tm obtain im tm' where
    m: "backup_repository env_archive_missing sys0 ''alpha'' = Inr (im, tm')"
      "clone_repository env_archive_missing sys0_alpha_dir ''alpha''
          (backup_dir sys0 @ ''/temp/'' @ ''alpha'') = (True, sys0_alpha_cloned) \<and>
       create_archive env_archive_missing sys0_alpha_cloned (backup_dir sys0 @ ''/temp/'' @ ''alpha'') ''alpha'' =
          Inr (''/b/alpha_20240101_000000.tar.gz'', sys0_alpha_cloned) \<and>
       py_stat sys0_alpha_cloned ''/b/alpha_20240101_000000.tar.gz'' =
          Inl (''[Errno 2] No such file or directory: '' @ quoted ''/b/alpha_20240101_000000.tar.gz'') \<longrightarrow>
       status im = ''failed'' \<and>
       errors (backup_log tm') = errors (backup_log sys0) @
         [''Backup failed for '' @ ''alpha'' @ '': '' @
          ''[Errno 2] No such file or directory: '' @ quoted ''/b/alpha_20240101_000000.tar.gz'']"
    by (elim exE conjE) (rule that)
  from m(2) archive_missing_steps(2,3,4) have m3: "status im = ''failed''"
    "errors (backup_log tm') = errors (backup_log sys0) @
       [''Backup failed for '' @ ''alpha'' @ '': '' @
        ''[Errno 2] No such file or directory: '' @ quoted ''/b/alpha_20240101_000000.tar.gz'']"
    by simp_all
  from failure_isolation [where e = env_beta_clone_fails and s = sys0,
      THEN conjunct2, THEN conjunct2, THEN mp, OF no_mkdir_faults_beta]
  obtain lg t new where r1: "backup_all_repositories env_beta_clone_fails sys0 = Inr (lg, t)"
    and nw: "repositories lg = repositories (backup_log sys0) @ new"
      "map name new = fst (get_all_repositories env_beta_clone_fails sys0)"
    by (elim exE conjE)
  have nm: "map name (repositories lg) = [''alpha'', ''beta'']"
    using nw by (simp add: eval_defs)
  obtain lg' t' where r2: "backup_all_repositories (replace_repo ''beta'' sys0 env_beta_clone_fails env_ok) sys0 =
      Inr (lg', t')"
    using run_replaced_beta
    by (cases "backup_all_repositories (replace_repo ''beta'' sys0 env_beta_clone_fails env_ok) sys0") auto
  have v1: "map status (repositories lg) = [''success'', ''failed'']"
    using run_beta_clone_fails by (simp add: r1)
  have v2: "map status (repositories lg') = [''success'', ''success'']"
    using run_replaced_beta by (simp add: r2)
  have iso: "filter (\<lambda>i. name i \<noteq> ''beta'') (repositories lg') =
      filter (\<lambda>i. name i \<noteq> ''beta'') (repositories lg)"
    using failure_isolation [where e = env_beta_clone_fails and s = sys0 and R = "''beta''"
        and lg = lg and t = t and e' = env_ok and lg' = lg' and t' = t',
        THEN conjunct2, THEN conjunct1] r1 r2 by simp
  have B: "\<exists>info s'. backup_repository env_beta_clone_fails sys0 ''beta'' = Inr (info, s') \<and>
      name info = ''beta'' \<and> status info = ''failed'' \<and>
      (\<exists>msg. errors (backup_log s') = errors (backup_log sys0) @ [''Failed to clone '' @ ''beta'' @ '': '' @ msg])"
    using b(1,2) b3 by (intro exI [of _ ib] exI [of _ tb'] conjI)
  have A: "\<exists>info s'. backup_repository env_empty_archive sys0 ''alpha'' = Inr (info, s') \<and>
      status info = ''failed'' \<and> errors (backup_log s') = errors (backup_log sys0)"
    using a(1) a3 by (intro exI [of _ ia] exI [of _ ta'] conjI)
  have Ra: "\<exists>info s'. backup_repository env_archive_raises sys0 ''alpha'' = Inr (info, s') \<and>
      status info = ''failed'' \<and>
      errors (backup_log s') = errors (backup_log sys0) @
        [''Backup failed for '' @ ''alpha'' @ '': '' @ ''[Errno 28] No space left on device'']"
    using r(1) r3 by (intro exI [of _ ir] exI [of _ tr'] conjI)
  have Ma: "\<exists>info s'. backup_repository env_archive_missing sys0 ''alpha'' = Inr (info, s') \<and>
      status info = ''failed'' \<and>
      errors (backup_log s') = errors (backup_log sys0) @
        [''Backup failed for '' @ ''alpha'' @ '': '' @
         ''[Errno 2] No such file or directory: '' @ quoted ''/b/alpha_20240101_000000.tar.gz'']"
    using m(1) m3 by (intro exI [of _ im] exI [of _ tm'] conjI)
  have I: "\<exists>lg t lg' t'. backup_all_repositories env_beta_clone_fails sys0 = Inr (lg, t) \<and>
      map name (repositories lg) = [''alpha'', ''beta''] \<and>
      backup_all_repositories (replace_repo ''beta'' sys0 env_beta_clone_fails env_ok) sys0 = Inr (lg', t') \<and>
      map status (repositories lg) = [''success'', ''failed''] \<and>
      map status (repositories lg') = [''success'', ''success''] \<and>
      filter (\<lambda>i. name i \<noteq> ''beta'') (repositories lg') =
      filter (\<lambda>i. name i \<noteq> ''beta'') (repositories lg)"
    using r1 nm r2 v1 v2 iso by (intro exI [of _ lg] exI [of _ t] exI [of _ lg'] exI [of _ t'] conjI)
  show ?thesis
    by (intro conjI mkb clb0 B mka cla ara sta A archive_raises_steps(3) Ra archive_missing_steps(4) Ma I)
qed

lemma empty_archive_stat:
  "py_stat sys0_alpha_archived ''/b/alpha_20240101_000000.tar.gz'' = Inr \<lparr>st_size = 0, st_mtime = 1000\<rparr>"
  "verify_archive sys0_alpha_archived ''/b/alpha_20240101_000000.tar.gz'' = Inr False"
  by (simp_all add: py_stat_def verify_archive_def exists_def sys0_alpha_archived_def)

theorem failed_record_fields_witness:
  "(\<exists>s1. clone_repository env_beta_clone_fails sys0_beta_dir ''beta''
            (backup_dir sys0 @ ''/temp/'' @ ''beta'') = (False, s1) \<and>
      backup_repository env_beta_clone_fails sys0 ''beta'' =
        Inr (\<lparr>name = ''beta'', info_timestamp = timestamp sys0, status = ''failed'', checksum = None,
              size_bytes = 0, archive_path = None, error = None\<rparr>, s1)) \<and>
   create_archive env_archive_raises sys0_alpha_cloned (backup_dir sys0 @ ''/temp/'' @ ''alpha'') ''alpha'' =
     Inl ''[Errno 28] No space left on device'' \<and>
   backup_repository env_archive_raises sys0 ''alpha'' =
     Inr (\<lparr>name = ''alpha'', info_timestamp = timestamp sys0, status = ''failed'',
           checksum = Some (checksum_of sys0_alpha_cloned (backup_dir sys0 @ ''/temp/'' @ ''alpha'')),
           size_bytes = 0, archive_path = None, error = Some ''[Errno 28] No space left on device''\<rparr>,
          add_error sys0_alpha_cloned
            (''Backup failed for '' @ ''alpha'' @ '': '' @ ''[Errno 28] No space left on device'')) \<and>
   py_stat sys0_alpha_cloned ''/b/alpha_20240101_000000.tar.gz'' =
     Inl (''[Errno 2] No such file or directory: '' @ quoted ''/b/alpha_20240101_000000.tar.gz'') \<and>
   backup_repository env_archive_missing sys0 ''alpha'' =
     Inr (\<lparr>name = ''alpha'', info_timestamp = timestamp sys0, status = ''failed'',
           checksum = Some (checksum_of sys0_alpha_cloned (backup_dir sys0 @ ''/temp/'' @ ''alpha'')),
           size_bytes = 0, archive_path = Some ''/b/alpha_20240101_000000.tar.gz'',
           error = Some (''[Errno 2] No such file or directory: '' @ quoted ''/b/alpha_20240101_000000.tar.gz'')\<rparr>,
          add_error sys0_alpha_cloned
            (''Backup failed for '' @ ''alpha'' @ '': '' @
             ''[Errno 2] No such file or directory: '' @ quoted ''/b/alpha_20240101_000000.tar.gz'')) \<and>
   py_stat sys0_alpha_archived ''/b/alpha_20240101_000000.tar.gz'' = Inr \<lparr>st_size = 0, st_mtime = 1000\<rparr> \<and>
   verify_archive sys0_alpha_archived ''/b/alpha_20240101_000000.tar.gz'' \<noteq> Inr True \<and>
   (\<exists>info s'. backup_repository env_empty_archive sys0 ''alpha'' = Inr (info, s') \<and>
      status info = ''failed'' \<and> size_bytes info = 0 \<and>
      checksum info = Some (checksum_of sys0_alpha_cloned (backup_dir sys0 @ ''/temp/'' @ ''alpha'')) \<and>
      archive_path info = Some ''/b/alpha_20240101_000000.tar.gz'')"
proof -
  obtain sb where clb: "clone_repository env_beta_clone_fails sys0_beta_dir ''beta''
        (backup_dir sys0 @ ''/temp/'' @ ''beta'') = (False, sb)"
    using beta_steps(2) by (cases "clone_repository env_beta_clone_fails sys0_beta_dir ''beta''
        (backup_dir sys0 @ ''/temp/'' @ ''beta'')") simp
  have b: "backup_repository env_beta_clone_fails sys0 ''beta'' =
        Inr (\<lparr>name = ''beta'', info_timestamp = timestamp sys0, status = ''failed'', checksum = None,
              size_bytes = 0, archive_path = None, error = None\<rparr>, sb)"
    using failed_record_fields [where e = env_beta_clone_fails and s = sys0 and R = "''beta''"
      and ?s0.0 = sys0_beta_dir and ?s1.0 = sb, THEN conjunct1] beta_steps(1) clb
    by simp
  have B: "\<exists>s1. clone_repository env_beta_clone_fails sys0_beta_dir ''beta''
            (backup_dir sys0 @ ''/temp/'' @ ''beta'') = (False, s1) \<and>
      backup_repository env_beta_clone_fails sys0 ''beta'' =
        Inr (\<lparr>name = ''beta'', info_timestamp = timestamp sys0, status = ''failed'', checksum = None,
              size_bytes = 0, archive_path = None, error = None\<rparr>, s1)"
    using clb b by (intro exI [of _ sb] conjI)
  have R: "backup_repository env_archive_raises sys0 ''alpha'' =
     Inr (\<lparr>name = ''alpha'', info_timestamp = timestamp sys0, status = ''failed'',
           checksum = Some (checksum_of sys0_alpha_cloned (backup_dir sys0 @ ''/temp/'' @ ''alpha'')),
           size_bytes = 0, archive_path = None, error = Some ''[Errno 28] No space left on device''\<rparr>,
          add_error sys0_alpha_cloned
            (''Backup failed for '' @ ''alpha'' @ '': '' @ ''[Errno 28] No space left on device''))"
    using failed_record_fields [where e = env_archive_raises and s = sys0 and R = "''alpha''"
      and ?s0.0 = sys0_alpha_dir and ?s1.0 = sys0_alpha_cloned
      and msg = "''[Errno 28] No space left on device''", THEN conjunct2, THEN conjunct1]
      archive_raises_steps
    by simp
  have M: "backup_repository env_archive_missing sys0 ''alpha'' =
     Inr (\<lparr>name = ''alpha'', info_timestamp = timestamp sys0, status = ''failed'',
           checksum = Some (checksum_of sys0_alpha_cloned (backup_dir sys0 @ ''/temp/'' @ ''alpha'')),
           size_bytes = 0, archive_path = Some ''/b/alpha_20240101_000000.tar.gz'',
           error = Some (''[Errno 2] No such file or directory: '' @ quoted ''/b/alpha_20240101_000000.tar.gz'')\<rparr>,
          add_error sys0_alpha_cloned
            (''Backup failed for '' @ ''alpha'' @ '': '' @
             ''[Errno 2] No such file or directory: '' @ quoted ''/b/alpha_20240101_000000.tar.gz''))"
    using failed_record_fields [where e = env_archive_missing and s = sys0 and R = "''alpha''"
      and ?s0.0 = sys0_alpha_dir and ?s1.0 = sys0_alpha_cloned
      and p = "''/b/alpha_20240101_000000.tar.gz''" and ?s2.0 = sys0_alpha_cloned
      and msg = "''[Errno 2] No such file or directory: '' @ quoted ''/b/alpha_20240101_000000.tar.gz''",
      THEN conjunct2, THEN conjunct2, THEN conjunct1]
      archive_missing_steps
    by simp
  have nv: "verify_archive sys0_alpha_archived ''/b/alpha_20240101_000000.tar.gz'' \<noteq> Inr True"
    by (simp add: empty_archive_stat(2))
  have E: "\<exists>info s'. backup_repository env_empty_archive sys0 ''alpha'' = Inr (info, s') \<and>
      status info = ''failed'' \<and> size_bytes info = 0 \<and>
      checksum info = Some (checksum_of sys0_alpha_cloned (backup_dir sys0 @ ''/temp/'' @ ''alpha'')) \<and>
      archive_path info = Some ''/b/alpha_20240101_000000.tar.gz''"
    using failed_record_fields [where e = env_empty_archive and s = sys0 and R = "''alpha''"
      and ?s0.0 = sys0_alpha_dir and ?s1.0 = sys0_alpha_cloned
      and p = "''/b/alpha_20240101_000000.tar.gz''" and ?s2.0 = sys0_alpha_archived
      and st = "\<lparr>st_size = 0, st_mtime = 1000\<rparr>",
      THEN conjunct2, THEN conjunct2, THEN conjunct2]
      alpha_steps empty_archive_stat(1) nv
    by simp
  show ?thesis
    by (intro conjI B archive_raises_steps(3) R archive_missing_steps(4) M empty_archive_stat(1) nv E)
qed

text \<open>
  \<^bold>\<open>C3\<close> (workspace release). The only \<^verbatim>\<open>shutil.rmtree\<close> is the last statement of
  the \<^verbatim>\<open>try\<close> block. After a failed clone (\<open>beta\<close>) the early return leaves the
  workspace on disk, and after a fault of the archiver (\<open>alpha\<close>, second run) the handler
  leaves the cloned tree on disk; only the successful repository's workspace is removed.
\<close>

theorem workspace_left_behind:
  "(case backup_all_repositories env_beta_clone_fails sys0 of
      Inl msg \<Rightarrow> False
    | Inr (lg, s') \<Rightarrow>
        map status (repositories lg) = [''success'', ''failed''] \<and>
        workspaces s' ''/b/temp/alpha'' = None \<and>
        workspaces s' ''/b/temp/beta'' = Some []) \<and>
   (case backup_repository env_archive_raises sys0 ''alpha'' of
      Inl msg \<Rightarrow> False
    | Inr (info, s') \<Rightarrow>
        status info = ''failed'' \<and>
        errors (backup_log s') = [''Backup failed for alpha: [Errno 28] No space left on device''] \<and>
        workspaces s' ''/b/temp/alpha'' = Some [(''README'', File (Some [0x68, 0x69]))])"
  by (simp add: eval_defs env_archive_raises_def)

text \<open>
  \<^bold>\<open>C8\<close> (publisher failure containment). The copy loop of \<open>upload_to_backup_repo\<close>
  runs before the \<^verbatim>\<open>try\<close> block: a \<^verbatim>\<open>shutil.copy2\<close> that raises leaves the
  method as an exception. A failing \<^verbatim>\<open>git push\<close> is caught and reported, and the log
  of the run is unchanged.
\<close>

theorem upload_copy_failure_escapes:
  "upload_to_backup_repo env_copy_fails sys_published = Inl ''[Errno 28] No space left on device'' \<and>
   (case upload_to_backup_repo env_push_fails sys_published of
      Inl msg \<Rightarrow> False
    | Inr s' \<Rightarrow>
        console s' = [UploadFailed ''git push: exit status 1''] \<and>
        backup_log s' = backup_log sys_published \<and>
        invoked s' = [[''git'', ''add'', ''.''],
                      [''git'', ''commit'', ''-m'', ''Automated backup 20240101_000000''],
                      [''git'', ''push'']])"
  by (simp add: upload_to_backup_repo_def Let_def env_copy_fails_def env_push_fails_def env_ok_def
      sys_published_def BackupSystem_init_def record_call_def print_def)

end
